theory Spec2Isabelle
  imports Main "HOL-Library.Word" "HOL-Library.Log_Nat" "HOL-Library.AList"
    "HOL-Library.Multiset"
begin

section \<open>The emission ledger of nuklaivm (emission/emission.go)\<close>

text \<open>
  A shallow embedding of \<^verbatim>\<open>emission/emission.go\<close>: the \<^verbatim>\<open>Emission\<close> aggregate with its
  validator registry, the staking operations, the epoch mint and the fee distribution.
  Go's \<^verbatim>\<open>uint64\<close> is a 64-bit word (addition and subtraction wrap around), Go's
  \<^verbatim>\<open>float64\<close> is modelled by its values (exact rationals, infinities, NaN) with
  round-to-nearest-even after every operation, maps are association lists, and the
  receiver \<^verbatim>\<open>e *Emission\<close> is passed in and returned, also when the call returns an
  error. The logger and the lock have no effect on the results and are left out; the
  virtual machine behind \<^verbatim>\<open>e.nuklaivm\<close> is a record of what the code reads from it.
\<close>

subsection \<open>Machine integers, identifiers, time\<close>

type_synonym u64 = "64 word"

text \<open>\<^verbatim>\<open>ids.NodeID\<close> and \<^verbatim>\<open>codec.Address\<close> are fixed-size byte arrays used only as map
  keys and compared for equality; they are read as numbers, the all-zero array
  (\<^verbatim>\<open>codec.EmptyAddress\<close>, \<^verbatim>\<open>ids.EmptyNodeID\<close>) being 0.\<close>

type_synonym nodeID = nat
type_synonym address = nat

definition EmptyAddress :: address where
  "EmptyAddress = 0"

definition EmptyNodeID :: nodeID where
  "EmptyNodeID = 0"

text \<open>A \<^verbatim>\<open>time.Time\<close> without monotonic clock reading is a pair of seconds (a signed
  64-bit count from year 1) and nanoseconds. \<^verbatim>\<open>time.Unix(sec, 0)\<close> adds the offset
  62135596800 of the Unix epoch in 64-bit arithmetic; \<^verbatim>\<open>t.After(u)\<close> compares the
  pairs lexicographically.\<close>

type_synonym time = "int \<times> int"

definition time_Unix :: "u64 \<Rightarrow> time" where
  "time_Unix sec = (sint (sec + 62135596800), 0)"

definition After :: "time \<Rightarrow> time \<Rightarrow> bool" where
  "After t u = (fst t > fst u \<or> (fst t = fst u \<and> snd t > snd u))"

subsection \<open>float64\<close>

text \<open>
  A \<^verbatim>\<open>float64\<close> is a sign (true for minus) with a magnitude (a non-negative rational
  that a double represents exactly), an infinity with its sign, or NaN. The program only converts integers to
  \<^verbatim>\<open>float64\<close>, multiplies, divides and converts back; each operation computes the exact
  result and rounds it to the nearest double, ties to the even significand (IEEE 754
  binary64: 53 significant bits, least exponent \<open>-1074\<close>, overflow to infinity at
  \<open>2^1024\<close>).
\<close>

datatype f64 = Num bool rat | Inf bool | NaN

definition pow2 :: "int \<Rightarrow> rat" where
  "pow2 e = (if 0 \<le> e then 2 ^ nat e else 1 / 2 ^ nat (- e))"

text \<open>\<open>ilog2 q\<close> is the integer part of the binary logarithm of a positive rational.\<close>

definition ilog2 :: "rat \<Rightarrow> int" where
  "ilog2 q = (if 1 \<le> q then bitlen \<lfloor>q\<rfloor> - 1 else - bitlen (\<lceil>1 / q\<rceil> - 1))"

definition round_half_even :: "rat \<Rightarrow> int" where
  "round_half_even q =
     (let f = \<lfloor>q\<rfloor>; r = q - of_int f
      in if r < 1 / 2 then f
         else if 1 / 2 < r then f + 1
         else if even f then f else f + 1)"

text \<open>Rounding of a non-negative exact result to a double of sign \<open>s\<close>.\<close>

definition f64_round :: "bool \<Rightarrow> rat \<Rightarrow> f64" where
  "f64_round s q =
     (if q = 0 then Num s 0
      else let e = max (ilog2 q - 52) (- 1074);
               r = of_int (round_half_even (q / pow2 e)) * pow2 e
           in if pow2 1024 \<le> r then Inf s else Num s r)"

definition f64_of_u64 :: "u64 \<Rightarrow> f64" where
  "f64_of_u64 x = f64_round False (of_int (uint x))"

text \<open>Conversion of a Go \<^verbatim>\<open>int\<close> (64 bits).\<close>

definition f64_of_int :: "int \<Rightarrow> f64" where
  "f64_of_int i = f64_round (i < 0) (of_int \<bar>i\<bar>)"

fun f64_mul :: "f64 \<Rightarrow> f64 \<Rightarrow> f64" where
  "f64_mul NaN _ = NaN"
| "f64_mul _ NaN = NaN"
| "f64_mul (Inf s) (Inf t) = Inf (s \<noteq> t)"
| "f64_mul (Inf s) (Num t b) = (if b = 0 then NaN else Inf (s \<noteq> t))"
| "f64_mul (Num s a) (Inf t) = (if a = 0 then NaN else Inf (s \<noteq> t))"
| "f64_mul (Num s a) (Num t b) = f64_round (s \<noteq> t) (a * b)"

fun f64_div :: "f64 \<Rightarrow> f64 \<Rightarrow> f64" where
  "f64_div NaN _ = NaN"
| "f64_div _ NaN = NaN"
| "f64_div (Inf s) (Inf t) = NaN"
| "f64_div (Inf s) (Num t b) = Inf (s \<noteq> t)"
| "f64_div (Num s a) (Inf t) = Num (s \<noteq> t) 0"
| "f64_div (Num s a) (Num t b) =
     (if b = 0 then (if a = 0 then NaN else Inf (s \<noteq> t))
      else f64_round (s \<noteq> t) (a / b))"

text \<open>
  \<^verbatim>\<open>uint64(f)\<close> discards the fraction. Where the truncated value is not a \<^verbatim>\<open>uint64\<close>
  (NaN, an infinity, \<open>2^64\<close> and above, \<open>-1\<close> and below) Go leaves the result to the
  implementation: the parameter \<open>P\<close> is that choice.
\<close>

type_synonym platform = "f64 \<Rightarrow> u64"

fun f64_to_u64 :: "platform \<Rightarrow> f64 \<Rightarrow> u64" where
  "f64_to_u64 P (Num s a) =
     (if s then (if a < 1 then 0 else P (Num s a))
      else if a < 2 ^ 64 then word_of_int \<lfloor>a\<rfloor> else P (Num s a))"
| "f64_to_u64 P x = P x"

text \<open>One such choice: a conversion that saturates (NaN and negative values to 0,
  values too large to the largest \<^verbatim>\<open>uint64\<close>).\<close>

fun saturating :: platform where
  "saturating (Num s a) = (if s then 0 else 18446744073709551615)"
| "saturating (Inf s) = (if s then 0 else 18446744073709551615)"
| "saturating NaN = 0"

subsection \<open>The data model\<close>

text \<open>The errors of \<^verbatim>\<open>emission/errors.go\<close>, an error of the storage layer
  (\<^verbatim>\<open>e.nuklaivm.State()\<close>), and the run-time panic of an integer division by zero.\<close>

datatype error =
    ErrValidatorNotFound
  | ErrValidatorAlreadyRegistered
  | ErrDelegatorNotFound
  | ErrDelegatorAlreadyStaked
  | ErrStakeNotFound
  | ErrStorage nat
  | PanicDivideByZero

record Validator =
  IsActive :: bool
  NodeID :: nodeID
  PublicKey :: "8 word list"
  StakedAmount :: u64
  UnclaimedStakedReward :: u64
  DelegationFeeRate :: f64
  DelegatedAmount :: u64
  UnclaimedDelegatedReward :: u64
  delegatorsLastClaim :: "(address \<times> u64) list"
  epochRewards :: "(u64 \<times> u64) list"
  stakeStartTime :: time
  stakeEndTime :: time

record EmissionAccount =
  Address :: address
  UnclaimedBalance :: u64

record EpochTracker =
  BaseAPR :: f64
  BaseValidators :: u64
  EpochLength :: u64

record Emission =
  TotalSupply :: u64
  MaxSupply :: u64
  EmissionAccount :: EmissionAccount
  validators :: "(nodeID \<times> Validator) list"
  TotalStaked :: u64
  EpochTracker :: EpochTracker

text \<open>
  The collaborators behind \<^verbatim>\<open>e.nuklaivm\<close>, which are not part of this package: the
  last accepted block (height and timestamp), the error of \<^verbatim>\<open>State()\<close> if it fails,
  and \<^verbatim>\<open>storage.GetDelegateUserStake\<close>, of which the code reads whether the stake
  exists and its amount.
\<close>

record NuklaiVM =
  Height :: u64
  Timestamp :: time
  StateError :: "error option"
  GetDelegateUserStake :: "address \<Rightarrow> nodeID \<Rightarrow> bool \<times> u64"

definition GetLastAcceptedBlockTimestamp :: "NuklaiVM \<Rightarrow> time" where
  "GetLastAcceptedBlockTimestamp vm = Timestamp vm"

definition GetLastAcceptedBlockHeight :: "NuklaiVM \<Rightarrow> u64" where
  "GetLastAcceptedBlockHeight vm = Height vm"

text \<open>\<^verbatim>\<open>New\<close>: the aggregate as it is first built; \<open>supplyCap\<close> is
  \<^verbatim>\<open>GetStakingConfig().RewardConfig.SupplyCap\<close>.\<close>

definition New :: "u64 \<Rightarrow> u64 \<Rightarrow> address \<Rightarrow> u64 \<Rightarrow> Emission" where
  "New totalSupply maxSupply emissionAddress supplyCap =
     \<lparr> TotalSupply = totalSupply,
       MaxSupply = (if maxSupply = 0 then supplyCap else maxSupply),
       EmissionAccount = \<lparr> Address = emissionAddress, UnclaimedBalance = 0 \<rparr>,
       validators = [],
       TotalStaked = 0,
       EpochTracker = \<lparr> BaseAPR = Num False (1 / 4), BaseValidators = 100, EpochLength = 10 \<rparr> \<rparr>"

subsection \<open>Supply, APR and rewards per epoch\<close>

definition AddToTotalSupply :: "Emission \<Rightarrow> u64 \<Rightarrow> u64 \<times> Emission" where
  "AddToTotalSupply e amount =
     (let amount' = (if TotalSupply e + amount > MaxSupply e
                     then MaxSupply e - TotalSupply e else amount);
          e' = e\<lparr>TotalSupply := TotalSupply e + amount'\<rparr>
      in (TotalSupply e', e'))"

definition GetNumDelegators :: "Emission \<Rightarrow> nodeID \<Rightarrow> int" where
  "GetNumDelegators e nodeID =
     (if nodeID = EmptyNodeID
      then sum_list (map (\<lambda>kv. int (length (delegatorsLastClaim (snd kv)))) (validators e))
      else (case map_of (validators e) nodeID of
              Some validator \<Rightarrow> int (length (delegatorsLastClaim validator))
            | None \<Rightarrow> 0))"

definition GetAPRForValidators :: "Emission \<Rightarrow> f64" where
  "GetAPRForValidators e =
     (let apr = BaseAPR (EpochTracker e);
          baseValidators = sint (BaseValidators (EpochTracker e));
          n = int (length (validators e))
      in if n > baseValidators
         then f64_div apr (f64_div (f64_of_int n) (f64_of_int baseValidators))
         else apr)"

definition GetRewardsPerEpoch :: "platform \<Rightarrow> Emission \<Rightarrow> u64" where
  "GetRewardsPerEpoch P e =
     (let rewardsPerBlock =
            f64_to_u64 P
              (f64_mul
                 (f64_div (f64_div (f64_div (f64_div
                    (f64_mul (f64_of_u64 (TotalStaked e)) (GetAPRForValidators e))
                    (Num False 365)) (Num False 24)) (Num False 60)) (Num False 60))
                 (f64_mul (f64_of_u64 (EpochLength (EpochTracker e))) (Num False 3)))
      in if TotalSupply e + rewardsPerBlock > MaxSupply e
         then MaxSupply e - TotalSupply e else rewardsPerBlock)"

subsection \<open>Delegation rewards\<close>

text \<open>The loop \<^verbatim>\<open>for epoch := startEpoch; epoch < endEpoch; epoch++\<close> of
  \<^verbatim>\<open>CalculateUserDelegationRewards\<close>.\<close>

function epoch_loop ::
  "platform \<Rightarrow> Validator \<Rightarrow> u64 \<Rightarrow> u64 \<Rightarrow> u64 \<Rightarrow> u64 \<Rightarrow> u64" where
  "epoch_loop P validator userStakedAmount epoch endEpoch totalReward =
     (if epoch < endEpoch
      then epoch_loop P validator userStakedAmount (epoch + 1) endEpoch
             (case map_of (epochRewards validator) epoch of
                Some reward \<Rightarrow>
                  (let delegatorShare =
                         f64_div (f64_of_u64 userStakedAmount)
                                 (f64_of_u64 (DelegatedAmount validator));
                       epochReward = f64_mul delegatorShare (f64_of_u64 reward)
                   in totalReward + f64_to_u64 P epochReward)
              | None \<Rightarrow> totalReward)
      else totalReward)"
  by pat_completeness auto
termination
proof (relation "measure (\<lambda>(P, validator, userStakedAmount, epoch, endEpoch, totalReward).
                            unat endEpoch - unat epoch)")
  show "wf (measure (\<lambda>(P, validator, userStakedAmount, epoch, endEpoch, totalReward).
                            unat endEpoch - unat epoch))"
    by simp
next
  fix P :: platform and validator :: Validator
    and userStakedAmount epoch endEpoch totalReward :: u64
  assume lt: "epoch < endEpoch"
  then have below: "unat epoch < unat endEpoch"
    by (simp add: word_less_nat_alt)
  have "unat endEpoch < 2 ^ 64"
    using unsigned_less [of endEpoch] by simp
  with below have "unat epoch + 1 < 2 ^ 64"
    by simp
  then have "unat (epoch + 1) = unat epoch + 1"
    by (simp add: unat_word_ariths)
  with below show "((P, validator, userStakedAmount, epoch + 1, endEpoch,
                     (case map_of (epochRewards validator) epoch of
                        Some reward \<Rightarrow>
                          (let delegatorShare =
                                 f64_div (f64_of_u64 userStakedAmount)
                                         (f64_of_u64 (DelegatedAmount validator));
                               epochReward = f64_mul delegatorShare (f64_of_u64 reward)
                           in totalReward + f64_to_u64 P epochReward)
                      | None \<Rightarrow> totalReward)),
                    (P, validator, userStakedAmount, epoch, endEpoch, totalReward))
                   \<in> measure (\<lambda>(P, validator, userStakedAmount, epoch, endEpoch, totalReward).
                            unat endEpoch - unat epoch)"
    by simp
qed

declare epoch_loop.simps [simp del]

definition CalculateUserDelegationRewards ::
  "platform \<Rightarrow> NuklaiVM \<Rightarrow> Emission \<Rightarrow> nodeID \<Rightarrow> address \<Rightarrow> u64 \<Rightarrow> error + u64" where
  "CalculateUserDelegationRewards P vm e nodeID actor currentBlockHeight =
     (case map_of (validators e) nodeID of
        None \<Rightarrow> Inl ErrValidatorNotFound
      | Some validator \<Rightarrow>
          (case map_of (delegatorsLastClaim validator) actor of
             None \<Rightarrow> Inl ErrDelegatorNotFound
           | Some lastClaimHeight \<Rightarrow>
               (case StateError vm of
                  Some err \<Rightarrow> Inl err
                | None \<Rightarrow>
                    (let (exists, userStakedAmount) = GetDelegateUserStake vm actor nodeID
                     in if \<not> exists then Inl ErrStakeNotFound
                        else if EpochLength (EpochTracker e) = 0 then Inl PanicDivideByZero
                        else
                          (let startEpoch = lastClaimHeight div EpochLength (EpochTracker e);
                               endEpoch = currentBlockHeight div EpochLength (EpochTracker e)
                           in Inr (epoch_loop P validator userStakedAmount
                                     startEpoch endEpoch 0))))))"

subsection \<open>Validator registry\<close>

text \<open>\<^verbatim>\<open>bls.PublicKeyToBytes\<close> is outside this package: \<open>nodePublicKey\<close> is the key
  already as bytes. A Go map entry updated through its pointer keeps its place
  (\<open>AList.update\<close>), a new entry is added, \<^verbatim>\<open>delete\<close> removes the key.\<close>

definition RegisterValidatorStake ::
  "Emission \<Rightarrow> nodeID \<Rightarrow> 8 word list \<Rightarrow> u64 \<Rightarrow> u64 \<Rightarrow> u64 \<Rightarrow> u64
     \<Rightarrow> error option \<times> Emission" where
  "RegisterValidatorStake e nodeID nodePublicKey stakeStartTime' stakeEndTime'
       stakedAmount delegationFeeRate =
     (case map_of (validators e) nodeID of
        Some validator \<Rightarrow>
          if IsActive validator then (Some ErrValidatorAlreadyRegistered, e)
          else
            (None,
             e\<lparr>validators :=
                 AList.update nodeID
                   (validator
                      \<lparr>PublicKey := nodePublicKey,
                       StakedAmount := StakedAmount validator + stakedAmount,
                       DelegationFeeRate :=
                         f64_div (f64_of_u64 delegationFeeRate) (Num False 100),
                       stakeStartTime := time_Unix stakeStartTime',
                       stakeEndTime := time_Unix stakeEndTime'\<rparr>)
                   (validators e)\<rparr>)
      | None \<Rightarrow>
          (None,
           e\<lparr>validators :=
               AList.update nodeID
                 \<lparr>IsActive = False,
                  NodeID = nodeID,
                  PublicKey = nodePublicKey,
                  StakedAmount = stakedAmount,
                  UnclaimedStakedReward = 0,
                  DelegationFeeRate =
                    f64_div (f64_of_u64 delegationFeeRate) (Num False 100),
                  DelegatedAmount = 0,
                  UnclaimedDelegatedReward = 0,
                  delegatorsLastClaim = [],
                  epochRewards = [],
                  stakeStartTime = time_Unix stakeStartTime',
                  stakeEndTime = time_Unix stakeEndTime'\<rparr>
                 (validators e)\<rparr>))"

definition WithdrawValidatorStake ::
  "Emission \<Rightarrow> nodeID \<Rightarrow> (error + u64) \<times> Emission" where
  "WithdrawValidatorStake e nodeID =
     (case map_of (validators e) nodeID of
        None \<Rightarrow> (Inl ErrValidatorNotFound, e)
      | Some validator \<Rightarrow>
          (let rewardAmount = UnclaimedStakedReward validator;
               v1 = validator\<lparr>UnclaimedStakedReward := 0\<rparr>;
               totalStaked = (if IsActive v1 then TotalStaked e - StakedAmount v1
                              else TotalStaked e);
               v2 = v1\<lparr>IsActive := False\<rparr>
           in if delegatorsLastClaim v2 = []
              then (Inr (rewardAmount + UnclaimedDelegatedReward v2),
                    e\<lparr>TotalStaked := totalStaked - DelegatedAmount v2,
                      validators := AList.delete nodeID (validators e)\<rparr>)
              else (Inr rewardAmount,
                    e\<lparr>TotalStaked := totalStaked,
                      validators := AList.update nodeID v2 (validators e)\<rparr>)))"

subsection \<open>Delegation ledger\<close>

definition DelegateUserStake ::
  "NuklaiVM \<Rightarrow> Emission \<Rightarrow> nodeID \<Rightarrow> address \<Rightarrow> u64 \<Rightarrow> error option \<times> Emission" where
  "DelegateUserStake vm e nodeID delegatorAddress stakeAmount =
     (case map_of (validators e) nodeID of
        None \<Rightarrow> (Some ErrValidatorNotFound, e)
      | Some validator \<Rightarrow>
          (case map_of (delegatorsLastClaim validator) delegatorAddress of
             Some _ \<Rightarrow> (Some ErrDelegatorAlreadyStaked, e)
           | None \<Rightarrow>
               (let v1 = validator\<lparr>DelegatedAmount := DelegatedAmount validator + stakeAmount\<rparr>;
                    totalStaked = (if IsActive v1 then TotalStaked e + stakeAmount
                                   else TotalStaked e);
                    v2 = v1\<lparr>delegatorsLastClaim :=
                              AList.update delegatorAddress (GetLastAcceptedBlockHeight vm)
                                (delegatorsLastClaim v1)\<rparr>
                in (None,
                    e\<lparr>TotalStaked := totalStaked,
                      validators := AList.update nodeID v2 (validators e)\<rparr>))))"

definition UndelegateUserStake ::
  "platform \<Rightarrow> NuklaiVM \<Rightarrow> Emission \<Rightarrow> nodeID \<Rightarrow> address \<Rightarrow> u64
     \<Rightarrow> (error + u64) \<times> Emission" where
  "UndelegateUserStake P vm e nodeID actor stakeAmount =
     (case map_of (validators e) nodeID of
        None \<Rightarrow> (Inl ErrValidatorNotFound, e)
      | Some validator \<Rightarrow>
          (case map_of (delegatorsLastClaim validator) actor of
             None \<Rightarrow> (Inl ErrDelegatorNotFound, e)
           | Some _ \<Rightarrow>
               (let currentBlockHeight = GetLastAcceptedBlockHeight vm
                in case CalculateUserDelegationRewards P vm e nodeID actor currentBlockHeight of
                     Inl err \<Rightarrow> (Inl err, e)
                   | Inr rewardAmount \<Rightarrow>
                       (let v1 = validator\<lparr>delegatorsLastClaim :=
                                   AList.update actor currentBlockHeight
                                     (delegatorsLastClaim validator)\<rparr>;
                            v2 = v1\<lparr>UnclaimedDelegatedReward :=
                                      UnclaimedDelegatedReward v1 - rewardAmount\<rparr>;
                            v3 = v2\<lparr>DelegatedAmount := DelegatedAmount v2 - stakeAmount\<rparr>;
                            totalStaked = (if IsActive v3 then TotalStaked e - stakeAmount
                                           else TotalStaked e);
                            v4 = v3\<lparr>delegatorsLastClaim :=
                                      AList.delete actor (delegatorsLastClaim v3)\<rparr>
                        in (Inr rewardAmount,
                            e\<lparr>TotalStaked := totalStaked,
                              validators :=
                                (if \<not> IsActive v4 \<and> delegatorsLastClaim v4 = []
                                 then AList.delete nodeID (validators e)
                                 else AList.update nodeID v4 (validators e))\<rparr>)))))"

definition ClaimStakingRewards ::
  "platform \<Rightarrow> NuklaiVM \<Rightarrow> Emission \<Rightarrow> nodeID \<Rightarrow> address \<Rightarrow> (error + u64) \<times> Emission" where
  "ClaimStakingRewards P vm e nodeID actor =
     (case map_of (validators e) nodeID of
        None \<Rightarrow> (Inl ErrValidatorNotFound, e)
      | Some validator \<Rightarrow>
          if actor = EmptyAddress
          then
            (let rewardAmount = UnclaimedStakedReward validator;
                 v1 = validator\<lparr>UnclaimedStakedReward := 0\<rparr>
             in if delegatorsLastClaim v1 = []
                then (Inr (rewardAmount + UnclaimedDelegatedReward v1),
                      e\<lparr>validators :=
                          AList.update nodeID (v1\<lparr>UnclaimedDelegatedReward := 0\<rparr>)
                            (validators e)\<rparr>)
                else (Inr rewardAmount,
                      e\<lparr>validators := AList.update nodeID v1 (validators e)\<rparr>))
          else
            (let currentBlockHeight = GetLastAcceptedBlockHeight vm
             in case CalculateUserDelegationRewards P vm e nodeID actor currentBlockHeight of
                  Inl err \<Rightarrow> (Inl err, e)
                | Inr reward \<Rightarrow>
                    (let v1 = validator\<lparr>delegatorsLastClaim :=
                                AList.update actor currentBlockHeight
                                  (delegatorsLastClaim validator)\<rparr>;
                         v2 = v1\<lparr>UnclaimedDelegatedReward :=
                                   UnclaimedDelegatedReward v1 - reward\<rparr>
                     in (Inr reward,
                         e\<lparr>validators := AList.update nodeID v2 (validators e)\<rparr>))))"

subsection \<open>Reward split, epoch mint and fee distribution\<close>

definition distributeValidatorRewards :: "platform \<Rightarrow> u64 \<Rightarrow> f64 \<Rightarrow> u64 \<Rightarrow> u64 \<times> u64" where
  "distributeValidatorRewards P totalValidatorReward delegationFeeRate delegatedAmount =
     (let delegationRewards =
            (if delegatedAmount > 0
             then f64_to_u64 P (f64_mul (f64_of_u64 totalValidatorReward) delegationFeeRate)
             else 0);
          validatorRewards = totalValidatorReward - delegationRewards
      in (validatorRewards, delegationRewards))"

text \<open>
  The body of the loop \<^verbatim>\<open>for _, validator := range e.validators\<close> of \<^verbatim>\<open>MintNewNAI\<close>
  for one validator: it takes and returns the validator, \<^verbatim>\<open>e.TotalStaked\<close> and
  \<^verbatim>\<open>actualRewards\<close>. The two \<^verbatim>\<open>continue\<close> statements are the two early results.
\<close>

definition mint_validator ::
  "platform \<Rightarrow> time \<Rightarrow> f64 \<Rightarrow> u64 \<Rightarrow> Validator \<Rightarrow> u64 \<Rightarrow> u64 \<Rightarrow> Validator \<times> u64 \<times> u64" where
  "mint_validator P lastBlockTime rewardsPerStakeUnit epochNumber validator totalStaked
       actualRewards =
     (let (v1, ts1) =
            (if After lastBlockTime (stakeStartTime validator)
             then (validator\<lparr>IsActive := True\<rparr>,
                   totalStaked + (StakedAmount validator + DelegatedAmount validator))
             else (validator, totalStaked))
      in if \<not> IsActive v1 then (v1, ts1, actualRewards)
         else if After lastBlockTime (stakeEndTime v1)
         then (v1\<lparr>IsActive := False\<rparr>,
               ts1 - (StakedAmount v1 + DelegatedAmount v1), actualRewards)
         else
           (let validatorStake = StakedAmount v1 + DelegatedAmount v1;
                totalValidatorReward =
                  f64_to_u64 P (f64_mul (f64_of_u64 validatorStake) rewardsPerStakeUnit);
                (validatorReward, delegationReward) =
                  distributeValidatorRewards P totalValidatorReward
                    (DelegationFeeRate v1) (DelegatedAmount v1)
            in (v1\<lparr>UnclaimedStakedReward := UnclaimedStakedReward v1 + validatorReward,
                    UnclaimedDelegatedReward := UnclaimedDelegatedReward v1 + delegationReward,
                    epochRewards :=
                      AList.update epochNumber delegationReward (epochRewards v1)\<rparr>,
                ts1, actualRewards + (validatorReward + delegationReward))))"

fun mint_loop ::
  "platform \<Rightarrow> time \<Rightarrow> f64 \<Rightarrow> u64 \<Rightarrow> (nodeID \<times> Validator) list \<Rightarrow> u64 \<Rightarrow> u64
     \<Rightarrow> (nodeID \<times> Validator) list \<times> u64 \<times> u64" where
  "mint_loop P lastBlockTime rewardsPerStakeUnit epochNumber [] totalStaked actualRewards =
     ([], totalStaked, actualRewards)"
| "mint_loop P lastBlockTime rewardsPerStakeUnit epochNumber ((nodeID, validator) # rest)
       totalStaked actualRewards =
     (let (v', ts', ar') =
            mint_validator P lastBlockTime rewardsPerStakeUnit epochNumber validator
              totalStaked actualRewards;
          (rest', ts'', ar'') =
            mint_loop P lastBlockTime rewardsPerStakeUnit epochNumber rest ts' ar'
      in ((nodeID, v') # rest', ts'', ar''))"

definition MintNewNAI :: "platform \<Rightarrow> NuklaiVM \<Rightarrow> Emission \<Rightarrow> (error + u64) \<times> Emission" where
  "MintNewNAI P vm e =
     (let currentBlockHeight = GetLastAcceptedBlockHeight vm
      in if EpochLength (EpochTracker e) = 0 then (Inl PanicDivideByZero, e)
         else if currentBlockHeight mod EpochLength (EpochTracker e) = 0
         then
           (let totalEpochRewards = GetRewardsPerEpoch P e;
                rewardsPerStakeUnit =
                  f64_div (f64_of_u64 totalEpochRewards) (f64_of_u64 (TotalStaked e));
                epochNumber = currentBlockHeight div EpochLength (EpochTracker e);
                (vs, totalStaked, actualRewards) =
                  mint_loop P (GetLastAcceptedBlockTimestamp vm) rewardsPerStakeUnit
                    epochNumber (validators e) (TotalStaked e) 0
            in (Inr actualRewards,
                e\<lparr>validators := vs,
                  TotalStaked := totalStaked,
                  TotalSupply := TotalSupply e + actualRewards\<rparr>))
         else (Inr 0, e))"

text \<open>The body of the loop of \<^verbatim>\<open>DistributeFees\<close> for one validator.\<close>

definition fee_validator ::
  "platform \<Rightarrow> time \<Rightarrow> f64 \<Rightarrow> Validator \<Rightarrow> u64 \<Rightarrow> Validator \<times> u64" where
  "fee_validator P lastBlockTime feesPerStakeUnit validator totalStaked =
     (let (v1, ts1) =
            (if After lastBlockTime (stakeStartTime validator)
             then (validator\<lparr>IsActive := True\<rparr>,
                   totalStaked + (StakedAmount validator + DelegatedAmount validator))
             else (validator, totalStaked))
      in if \<not> IsActive v1 then (v1, ts1)
         else if After lastBlockTime (stakeEndTime v1)
         then (v1\<lparr>IsActive := False\<rparr>, ts1 - (StakedAmount v1 + DelegatedAmount v1))
         else
           (let validatorStake = StakedAmount v1 + DelegatedAmount v1;
                totalValidatorFee =
                  f64_to_u64 P (f64_mul (f64_of_u64 validatorStake) feesPerStakeUnit);
                (validatorFee, delegationFee) =
                  distributeValidatorRewards P totalValidatorFee
                    (DelegationFeeRate v1) (DelegatedAmount v1)
            in (v1\<lparr>UnclaimedStakedReward := UnclaimedStakedReward v1 + validatorFee,
                    UnclaimedDelegatedReward := UnclaimedDelegatedReward v1 + delegationFee\<rparr>,
                ts1)))"

fun fee_loop ::
  "platform \<Rightarrow> time \<Rightarrow> f64 \<Rightarrow> (nodeID \<times> Validator) list \<Rightarrow> u64
     \<Rightarrow> (nodeID \<times> Validator) list \<times> u64" where
  "fee_loop P lastBlockTime feesPerStakeUnit [] totalStaked = ([], totalStaked)"
| "fee_loop P lastBlockTime feesPerStakeUnit ((nodeID, validator) # rest) totalStaked =
     (let (v', ts') = fee_validator P lastBlockTime feesPerStakeUnit validator totalStaked;
          (rest', ts'') = fee_loop P lastBlockTime feesPerStakeUnit rest ts'
      in ((nodeID, v') # rest', ts''))"

definition DistributeFees :: "platform \<Rightarrow> NuklaiVM \<Rightarrow> Emission \<Rightarrow> u64 \<Rightarrow> Emission" where
  "DistributeFees P vm e fee =
     (let fee' = (if TotalSupply e + fee > MaxSupply e
                  then MaxSupply e - TotalSupply e else fee);
          feesForEmission = fee' div 2;
          e1 = e\<lparr>EmissionAccount :=
                   (EmissionAccount e)
                     \<lparr>UnclaimedBalance :=
                        UnclaimedBalance (EmissionAccount e) + feesForEmission\<rparr>\<rparr>;
          feesForValidators = fee' - feesForEmission
      in if TotalStaked e1 = 0 \<or> feesForValidators = 0 then e1
         else
           (let feesPerStakeUnit =
                  f64_div (f64_of_u64 feesForValidators) (f64_of_u64 (TotalStaked e1));
                (vs, totalStaked) =
                  fee_loop P (GetLastAcceptedBlockTimestamp vm) feesPerStakeUnit
                    (validators e1) (TotalStaked e1)
            in e1\<lparr>validators := vs, TotalStaked := totalStaked\<rparr>))"

text \<open>The sum of own and delegated stake over the validators whose \<^verbatim>\<open>IsActive\<close> flag
  is set, as a number.\<close>

definition active_stake :: "Emission \<Rightarrow> nat" where
  "active_stake e =
     sum_list (map (\<lambda>kv. if IsActive (snd kv)
                          then unat (StakedAmount (snd kv)) + unat (DelegatedAmount (snd kv))
                          else 0)
                   (validators e))"

subsection \<open>Concrete ledgers and blocks\<close>

text \<open>The validator that \<^verbatim>\<open>RegisterValidatorStake\<close> creates for a stake from second 0
  to second 1000000 with a delegation fee rate of 50.\<close>

definition registered :: "nodeID \<Rightarrow> u64 \<Rightarrow> Validator" where
  "registered n stake =
     \<lparr>IsActive = False, NodeID = n, PublicKey = [], StakedAmount = stake,
      UnclaimedStakedReward = 0, DelegationFeeRate = Num False (1 / 2),
      DelegatedAmount = 0, UnclaimedDelegatedReward = 0,
      delegatorsLastClaim = [], epochRewards = [],
      stakeStartTime = time_Unix 0, stakeEndTime = time_Unix 1000000\<rparr>"

text \<open>A ledger as \<^verbatim>\<open>New\<close> builds it for the emission address 9, with the given
  supply, cap, total stake and validators.\<close>

definition ledger :: "u64 \<Rightarrow> u64 \<Rightarrow> u64 \<Rightarrow> (nodeID \<times> Validator) list \<Rightarrow> Emission" where
  "ledger supply cap staked vs = (New supply cap 9 0)\<lparr>validators := vs, TotalStaked := staked\<rparr>"

text \<open>The last accepted block at height \<open>h\<close> and second \<open>t\<close>, over a store that holds
  a stake of \<open>amount\<close> for the delegators 11 and 12 at node 1.\<close>

definition block :: "u64 \<Rightarrow> u64 \<Rightarrow> u64 \<Rightarrow> NuklaiVM" where
  "block h t amount =
     \<lparr>Height = h, Timestamp = time_Unix t, StateError = None,
      GetDelegateUserStake =
        (\<lambda>actor nodeID. if nodeID = 1 \<and> (actor = 11 \<or> actor = 12)
                         then (True, amount) else (False, 0))\<rparr>"

text \<open>A ledger whose validator 1 is active with own stake 100, a delegator (address 11)
  with stake 50, and unclaimed rewards 7 and 3; and the same validator with no
  delegator.\<close>

definition staked_ledger :: Emission where
  "staked_ledger =
     ledger 0 1000 150
       [(1, (registered 1 100)
              \<lparr>IsActive := True, UnclaimedStakedReward := 7, DelegatedAmount := 50,
               UnclaimedDelegatedReward := 3, delegatorsLastClaim := [(11, 5)]\<rparr>)]"

definition solo_ledger :: Emission where
  "solo_ledger =
     ledger 0 1000 100
       [(1, (registered 1 100)
              \<lparr>IsActive := True, UnclaimedStakedReward := 7,
               UnclaimedDelegatedReward := 3\<rparr>)]"

text \<open>A block whose state cannot be opened.\<close>

definition failing_store :: NuklaiVM where
  "failing_store = (block 6 100 50)\<lparr>StateError := Some (ErrStorage 1)\<rparr>"

text \<open>The test \<^verbatim>\<open>exists && validator.IsActive\<close> of \<^verbatim>\<open>RegisterValidatorStake\<close>.\<close>

definition registered_and_active :: "Emission \<Rightarrow> nodeID \<Rightarrow> bool" where
  "registered_and_active e nodeID =
     (case map_of (validators e) nodeID of Some validator \<Rightarrow> IsActive validator | None \<Rightarrow> False)"

text \<open>The ledger after one registration of node 1 on a new ledger.\<close>

definition once_registered :: Emission where
  "once_registered = snd (RegisterValidatorStake (New 0 1000 9 0) 1 [] 0 1000000 100 50)"

text \<open>Scenario B: one active validator with own stake 100, no delegators and a
  delegation fee rate of 10 percent; the total stake is 100.\<close>

definition scenario_B :: Emission where
  "scenario_B =
     ledger 0 1000 100
       [(1, (registered 1 100)
              \<lparr>IsActive := True,
               DelegationFeeRate := f64_div (f64_of_u64 10) (Num False 100)\<rparr>)]"

text \<open>
  A validator (node 1, own stake \<open>2^40\<close>, fee rate 50, stake window from second 0 to
  second 560) with two delegators (addresses 11 and 12, \<open>2^39\<close> each, delegated at
  height 5), after the epochs 1 and 2 have been minted and the epoch boundary at
  height 30 has deactivated it.
\<close>

definition after_stake_end :: Emission where
  "after_stake_end =
     ledger 522979 1000000000000000000 4398046511104
       [(1, \<lparr>IsActive = False, NodeID = 1, PublicKey = [],
              StakedAmount = 1099511627776, UnclaimedStakedReward = 261490,
              DelegationFeeRate = Num False (1 / 2),
              DelegatedAmount = 1099511627776, UnclaimedDelegatedReward = 261489,
              delegatorsLastClaim = [(11, 5), (12, 5)],
              epochRewards = [(1, 0), (2, 261489)],
              stakeStartTime = time_Unix 0, stakeEndTime = time_Unix 560\<rparr>)]"

text \<open>The calls that lead from a new ledger to \<open>after_stake_end\<close>.\<close>

definition delegated_twice :: Emission where
  "delegated_twice =
     snd (DelegateUserStake (block 5 100 549755813888)
       (snd (DelegateUserStake (block 5 100 549755813888)
         (snd (RegisterValidatorStake (New 0 1000000000000000000 9 0)
                 1 [] 0 560 1099511627776 50))
         1 11 549755813888))
       1 12 549755813888)"

definition after_epoch_1 :: Emission where
  "after_epoch_1 = snd (MintNewNAI saturating (block 10 500 549755813888) delegated_twice)"

definition after_epoch_2 :: Emission where
  "after_epoch_2 = snd (MintNewNAI saturating (block 20 530 549755813888) after_epoch_1)"

definition after_epoch_3 :: Emission where
  "after_epoch_3 = snd (MintNewNAI saturating (block 30 590 549755813888) after_epoch_2)"

text \<open>The ledger after delegator 12 has undelegated at height 31.\<close>

definition after_undelegate :: Emission where
  "after_undelegate =
     ledger 522979 1000000000000000000 4398046511104
       [(1, \<lparr>IsActive = False, NodeID = 1, PublicKey = [],
              StakedAmount = 1099511627776, UnclaimedStakedReward = 261490,
              DelegationFeeRate = Num False (1 / 2),
              DelegatedAmount = 549755813888, UnclaimedDelegatedReward = 130745,
              delegatorsLastClaim = [(11, 5)],
              epochRewards = [(1, 0), (2, 261489)],
              stakeStartTime = time_Unix 0, stakeEndTime = time_Unix 560\<rparr>)]"

text \<open>
  A ledger 8 below its cap of 1000: validator 1 (own stake \<open>2^30\<close>) is active and makes
  up the total stake, validator 2 (own stake \<open>2^30\<close>) has registered and is not active
  yet. It is reached from a new ledger by registering validator 1, the epoch boundary
  at height 10, and registering validator 2.
\<close>

definition near_cap :: Emission where
  "near_cap =
     ledger 992 1000 1073741824
       [(1, (registered 1 1073741824)\<lparr>IsActive := True, epochRewards := [(1, 0)]\<rparr>),
        (2, registered 2 1073741824)]"

definition near_cap_trace :: Emission where
  "near_cap_trace =
     snd (RegisterValidatorStake
       (snd (MintNewNAI saturating (block 10 500 0)
         (snd (RegisterValidatorStake (New 992 1000 9 0) 1 [] 0 1000000 1073741824 50))))
       2 [] 0 1000000 1073741824 50)"

section \<open>Properties\<close>

subsection \<open>Evaluation of the arithmetic on numerals\<close>

lemma floor_num: "\<lfloor>(numeral a :: rat) / numeral b\<rfloor> = numeral a div numeral b"
  using floor_divide_of_int_eq [of "numeral a" "numeral b", where ?'a = rat] by simp

lemma ceiling_num: "\<lceil>(numeral a :: rat) / numeral b\<rceil> = - ((- numeral a) div numeral b)"
  using floor_divide_of_int_eq [of "- numeral a" "numeral b", where ?'a = rat]
  by (simp add: ceiling_def)

lemmas bitlen_num = compute_bitlen [of "numeral n" for n] compute_bitlen [of 1]

lemmas f64_eval =
  f64_of_u64_def f64_of_int_def f64_round_def ilog2_def pow2_def round_half_even_def
  Let_def bitlen_num floor_num ceiling_num

lemmas ledger_eval =
  registered_def ledger_def block_def New_def time_Unix_def After_def
  GetLastAcceptedBlockHeight_def GetLastAcceptedBlockTimestamp_def EmptyAddress_def

text \<open>Some values of the arithmetic: one tenth, the two ties next to \<open>2^53\<close>, the
  largest \<^verbatim>\<open>uint64\<close>, and the divisions by zero.\<close>

lemma f64_examples:
  "f64_div (f64_of_u64 1) (f64_of_u64 10)
     = Num False (3602879701896397 / 36028797018963968) \<and>
   f64_of_u64 9007199254740993 = Num False 9007199254740992 \<and>
   f64_of_u64 9007199254740995 = Num False 9007199254740996 \<and>
   f64_of_u64 18446744073709551615 = Num False 18446744073709551616 \<and>
   f64_div (f64_of_u64 0) (f64_of_u64 0) = NaN \<and>
   f64_div (f64_of_u64 1) (f64_of_u64 0) = Inf False"
  by (simp add: f64_eval)

subsection \<open>Rounding of whole numbers and of products below \<open>2^53\<close>\<close>

text \<open>Whole numbers below \<open>2^53\<close> are doubles, and the rounding of a value below
  \<open>2^53\<close> never passes a whole number: the result lies between the integer part of
  the value and the value rounded up.\<close>

lemma round_half_even_of_int: "round_half_even (of_int k) = k"
  by (simp add: round_half_even_def)

lemma f64_round_int_exact:
  assumes "0 \<le> n" and "n < 2 ^ 53"
  shows "f64_round s (of_int n) = Num s (of_int n)"
proof (cases "n = 0")
  case True
  then show ?thesis by (simp add: f64_round_def)
next
  case False
  with assms have pos: "0 < n" by simp
  define k where "k = nat (53 - bitlen n)"
  have len1: "1 \<le> bitlen n"
    using pos bitlen_eq_zero_iff [of n] bitlen_nonneg [of n] by linarith
  have "(2 :: int) ^ nat (bitlen n - 1) \<le> n"
    using bitlen_bounds [OF pos] by simp
  with assms(2) have below: "(2 :: int) ^ nat (bitlen n - 1) < 2 ^ 53"
    by linarith
  have "(1 :: int) < 2"
    by simp
  from power_less_imp_less_exp [OF this below] have "nat (bitlen n - 1) < 53" .
  with len1 have len53: "bitlen n \<le> 53"
    by linarith
  have log: "ilog2 (of_int n) = bitlen n - 1"
    using pos by (simp add: ilog2_def)
  have e: "max (ilog2 (of_int n) - 52) (- 1074) = - int k"
    using len1 len53 by (simp add: log k_def)
  have p: "pow2 (- int k) = 1 / 2 ^ k"
    by (cases "k = 0") (simp_all add: pow2_def)
  have scaled: "(of_int n :: rat) / pow2 (- int k) = of_int (n * 2 ^ k)"
    by (simp add: p)
  have restored: "(of_int (n * 2 ^ k) :: rat) * pow2 (- int k) = of_int n"
    by (simp add: p)
  have "(of_int n :: rat) < 2 ^ 53"
    using assms(2) by (metis of_int_less_iff of_int_numeral of_int_power)
  also have "\<dots> < pow2 1024"
    by (simp add: pow2_def)
  finally have small: "\<not> pow2 1024 \<le> (of_int n :: rat)"
    by simp
  from pos have "(of_int n :: rat) \<noteq> 0"
    by simp
  then show ?thesis
    unfolding f64_round_def Let_def e scaled round_half_even_of_int restored
    using small by simp
qed

lemma f64_of_u64_exact: "uint x < 2 ^ 53 \<Longrightarrow> f64_of_u64 x = Num False (of_int (uint x))"
  unfolding f64_of_u64_def by (rule f64_round_int_exact) simp_all

lemma round_half_even_bounds: "\<lfloor>x\<rfloor> \<le> round_half_even x \<and> round_half_even x \<le> \<lceil>x\<rceil>"
proof (cases "x - of_int \<lfloor>x\<rfloor> < 1 / 2")
  case True
  then show ?thesis
    by (simp add: round_half_even_def Let_def)
next
  case False
  then have "x \<noteq> of_int \<lfloor>x\<rfloor>"
    by auto
  then have "of_int \<lfloor>x\<rfloor> < x"
    using of_int_floor_le [of x] by linarith
  then have "\<lfloor>x\<rfloor> < \<lceil>x\<rceil>"
    by (simp only: less_ceiling_iff)
  then have "\<lfloor>x\<rfloor> + 1 \<le> \<lceil>x\<rceil>"
    by linarith
  then show ?thesis
    by (simp add: round_half_even_def Let_def)
qed

lemma bitlen_le_53:
  assumes "0 < n" and "n < 2 ^ 53"
  shows "bitlen n \<le> 53"
proof -
  have "(2 :: int) ^ nat (bitlen n - 1) \<le> n"
    using bitlen_bounds [OF assms(1)] by simp
  with assms(2) have below: "(2 :: int) ^ nat (bitlen n - 1) < 2 ^ 53"
    by linarith
  have "(1 :: int) < 2"
    by simp
  from power_less_imp_less_exp [OF this below] have "nat (bitlen n - 1) < 53" .
  then show ?thesis
    by linarith
qed

lemma ilog2_le_52:
  assumes "0 < q" and "q < 2 ^ 53"
  shows "ilog2 q \<le> 52"
proof (cases "1 \<le> q")
  case True
  then have pos: "0 < \<lfloor>q\<rfloor>"
    by simp
  have "\<lfloor>q\<rfloor> < 2 ^ 53"
    using assms(2) by (simp add: floor_less_iff)
  from bitlen_le_53 [OF pos this] True show ?thesis
    by (simp add: ilog2_def)
next
  case False
  then show ?thesis
    using bitlen_nonneg [of "\<lceil>1 / q\<rceil> - 1"] by (simp add: ilog2_def)
qed

lemma f64_round_between:
  assumes "0 < q" and "q < 2 ^ 53"
  shows "\<exists>r. f64_round s q = Num s r \<and> of_int \<lfloor>q\<rfloor> \<le> r \<and> r \<le> of_int \<lceil>q\<rceil>"
proof -
  define e where "e = max (ilog2 q - 52) (- 1074)"
  define k where "k = nat (- e)"
  define m where "m = round_half_even (q / pow2 e)"
  have "e \<le> 0"
    using ilog2_le_52 [OF assms] by (simp add: e_def)
  then have p: "pow2 e = 1 / 2 ^ k"
    by (cases "e = 0") (simp_all add: pow2_def k_def)
  have scaled: "q / pow2 e = q * 2 ^ k"
    by (simp add: p)
  have lower: "\<lfloor>q\<rfloor> * 2 ^ k \<le> m"
  proof -
    have "(of_int (\<lfloor>q\<rfloor> * 2 ^ k) :: rat) \<le> q * 2 ^ k"
      by (simp add: mult_right_mono)
    then have "\<lfloor>q\<rfloor> * 2 ^ k \<le> \<lfloor>q * 2 ^ k\<rfloor>"
      by (simp add: le_floor_iff)
    with round_half_even_bounds [of "q * 2 ^ k"] show ?thesis
      by (simp add: m_def scaled)
  qed
  have upper: "m \<le> \<lceil>q\<rceil> * 2 ^ k"
  proof -
    have "q * 2 ^ k \<le> (of_int (\<lceil>q\<rceil> * 2 ^ k) :: rat)"
      by (simp add: mult_right_mono)
    then have "\<lceil>q * 2 ^ k\<rceil> \<le> \<lceil>q\<rceil> * 2 ^ k"
      by (simp add: ceiling_le_iff)
    with round_half_even_bounds [of "q * 2 ^ k"] show ?thesis
      by (simp add: m_def scaled)
  qed
  define r where "r = (of_int m :: rat) * pow2 e"
  have r_eq: "r = of_int m / 2 ^ k"
    by (simp add: r_def p)
  have r_lower: "of_int \<lfloor>q\<rfloor> \<le> r"
  proof -
    from lower have "(of_int (\<lfloor>q\<rfloor> * 2 ^ k) :: rat) \<le> of_int m"
      by (simp only: of_int_le_iff)
    then show ?thesis
      by (simp add: r_eq pos_le_divide_eq)
  qed
  have r_upper: "r \<le> of_int \<lceil>q\<rceil>"
  proof -
    from upper have "(of_int m :: rat) \<le> of_int (\<lceil>q\<rceil> * 2 ^ k)"
      by (simp only: of_int_le_iff)
    then show ?thesis
      by (simp add: r_eq pos_divide_le_eq)
  qed
  have "\<lceil>q\<rceil> \<le> 2 ^ 53"
    using assms(2) by (simp add: ceiling_le_iff)
  then have "(of_int \<lceil>q\<rceil> :: rat) \<le> 2 ^ 53"
    by (metis of_int_le_iff of_int_numeral of_int_power)
  also have "\<dots> < pow2 1024"
    by (simp add: pow2_def)
  finally have "\<not> pow2 1024 \<le> r"
    using r_upper by simp
  moreover from assms(1) have "q \<noteq> 0"
    by simp
  ultimately have "f64_round s q = Num s r"
    by (simp add: f64_round_def Let_def e_def [symmetric] m_def [symmetric] r_def [symmetric])
  with r_lower r_upper show ?thesis
    by blast
qed

lemma delegation_share_bounds:
  assumes small: "uint reward < 2 ^ 53" and r0: "0 \<le> r" and r1: "r \<le> 1"
  shows "\<exists>d. f64_to_u64 P (f64_mul (f64_of_u64 reward) (Num False r)) = d \<and>
           \<lfloor>of_int (uint reward) * r\<rfloor> \<le> uint d \<and>
           uint d \<le> \<lceil>of_int (uint reward) * r\<rceil> \<and>
           uint d \<le> uint reward"
proof -
  define t :: rat where "t = of_int (uint reward)"
  define q where "q = t * r"
  have t0: "0 \<le> t"
    using uint_ge_0 [of reward] unfolding t_def by (simp only: of_int_0_le_iff)
  have t53: "t < 2 ^ 53"
    using small unfolding t_def by (metis of_int_less_iff of_int_numeral of_int_power)
  have q0: "0 \<le> q"
    using t0 r0 by (simp add: q_def)
  have qt: "q \<le> t"
    using t0 r1 by (simp add: q_def mult_left_le)
  have prod: "f64_mul (f64_of_u64 reward) (Num False r) = f64_round False q"
    by (simp add: f64_of_u64_exact [OF small] q_def t_def)
  have "\<exists>d. f64_to_u64 P (f64_mul (f64_of_u64 reward) (Num False r)) = d \<and>
           \<lfloor>q\<rfloor> \<le> uint d \<and> uint d \<le> \<lceil>q\<rceil> \<and> uint d \<le> uint reward"
  proof (cases "q = 0")
    case True
    then show ?thesis
      using prod by (simp add: f64_round_def)
  next
    case False
    with q0 have "0 < q"
      by simp
    moreover from qt t53 have "q < 2 ^ 53"
      by simp
    ultimately obtain r' where rounded: "f64_round False q = Num False r'"
        and lo: "of_int \<lfloor>q\<rfloor> \<le> r'" and hi: "r' \<le> of_int \<lceil>q\<rceil>"
      using f64_round_between [of q False] by blast
    have ceil_t: "\<lceil>q\<rceil> \<le> uint reward"
      using qt by (simp add: ceiling_le_iff t_def)
    have fl_lo: "\<lfloor>q\<rfloor> \<le> \<lfloor>r'\<rfloor>"
      using lo by (simp add: le_floor_iff)
    have fl_hi: "\<lfloor>r'\<rfloor> \<le> \<lceil>q\<rceil>"
      using hi by (simp add: floor_le_iff)
    have fl0: "0 \<le> \<lfloor>r'\<rfloor>"
      using fl_lo q0 by (smt (verit) zero_le_floor)
    have "(of_int \<lceil>q\<rceil> :: rat) \<le> t"
      using ceil_t unfolding t_def by (simp only: of_int_le_iff)
    with hi t53 have r53: "r' < 2 ^ 53"
      by linarith
    then have r64: "r' < 2 ^ 64"
      by simp
    then have fl64: "\<lfloor>r'\<rfloor> < 2 ^ 64"
      by (simp add: floor_less_iff)
    have conv: "f64_to_u64 P (f64_mul (f64_of_u64 reward) (Num False r)) = word_of_int \<lfloor>r'\<rfloor>"
      using r64 by (simp add: prod rounded)
    have val: "uint (word_of_int \<lfloor>r'\<rfloor> :: u64) = \<lfloor>r'\<rfloor>"
      using fl0 fl64 by (simp add: uint_word_of_int)
    show ?thesis
      using conv val fl_lo fl_hi ceil_t by simp
  qed
  then show ?thesis
    unfolding q_def t_def .
qed

subsection \<open>The order in which the loops visit the validators\<close>

text \<open>
  Go visits the entries of a map in no fixed order; the model visits the list in its
  order. The order is immaterial: the body of a loop changes the validator it visits
  independently of \<^verbatim>\<open>e.TotalStaked\<close> and \<^verbatim>\<open>actualRewards\<close>, to which it only adds, so
  that any two orders give the same entries, the same total stake and the same rewards.
\<close>

lemma mint_validator_shift:
  "mint_validator P t r n v ts a =
     (fst (mint_validator P t r n v 0 0),
      ts + fst (snd (mint_validator P t r n v 0 0)),
      a + snd (snd (mint_validator P t r n v 0 0)))"
  by (simp add: mint_validator_def Let_def split: prod.splits)

lemma mint_loop_as_map:
  "mint_loop P t r n vs ts a =
     (map (\<lambda>kv. (fst kv, fst (mint_validator P t r n (snd kv) 0 0))) vs,
      ts + sum_list (map (\<lambda>kv. fst (snd (mint_validator P t r n (snd kv) 0 0))) vs),
      a + sum_list (map (\<lambda>kv. snd (snd (mint_validator P t r n (snd kv) 0 0))) vs))"
proof (induction vs arbitrary: ts a)
  case Nil
  show ?case by simp
next
  case (Cons kv vs)
  obtain k v where kv: "kv = (k, v)"
    by (cases kv)
  show ?case
    unfolding kv
    by (simp add: Cons.IH mint_validator_shift [of P t r n v ts a] add.assoc
          split: prod.splits)
qed

lemma mint_loop_order:
  assumes "mset vs = mset vs'"
  shows "mset (fst (mint_loop P t r n vs ts a)) = mset (fst (mint_loop P t r n vs' ts a)) \<and>
         snd (mint_loop P t r n vs ts a) = snd (mint_loop P t r n vs' ts a)"
proof -
  have sums: "sum_list (map f vs) = sum_list (map f vs')" for f :: "nodeID \<times> Validator \<Rightarrow> u64"
    using assms by (metis mset_map sum_mset_sum_list)
  from assms show ?thesis
    by (simp add: mint_loop_as_map sums)
qed

lemma fee_validator_shift:
  "fee_validator P t r v ts =
     (fst (fee_validator P t r v 0), ts + snd (fee_validator P t r v 0))"
  by (simp add: fee_validator_def Let_def split: prod.splits)

lemma fee_loop_as_map:
  "fee_loop P t r vs ts =
     (map (\<lambda>kv. (fst kv, fst (fee_validator P t r (snd kv) 0))) vs,
      ts + sum_list (map (\<lambda>kv. snd (fee_validator P t r (snd kv) 0)) vs))"
proof (induction vs arbitrary: ts)
  case Nil
  show ?case by simp
next
  case (Cons kv vs)
  obtain k v where kv: "kv = (k, v)"
    by (cases kv)
  show ?case
    unfolding kv
    by (simp add: Cons.IH fee_validator_shift [of P t r v ts] add.assoc split: prod.splits)
qed

lemma fee_loop_order:
  assumes "mset vs = mset vs'"
  shows "mset (fst (fee_loop P t r vs ts)) = mset (fst (fee_loop P t r vs' ts)) \<and>
         snd (fee_loop P t r vs ts) = snd (fee_loop P t r vs' ts)"
proof -
  have sums: "sum_list (map f vs) = sum_list (map f vs')" for f :: "nodeID \<times> Validator \<Rightarrow> u64"
    using assms by (metis mset_map sum_mset_sum_list)
  from assms show ?thesis
    by (simp add: fee_loop_as_map sums)
qed

subsection \<open>Errors leave the ledger as it was\<close>

lemma Register_error_unchanged:
  "fst (RegisterValidatorStake e n pk s t a r) \<noteq> None \<Longrightarrow>
     snd (RegisterValidatorStake e n pk s t a r) = e"
  by (cases "map_of (validators e) n")
     (auto simp: RegisterValidatorStake_def split: if_splits)

lemma Withdraw_error_unchanged:
  "isl (fst (WithdrawValidatorStake e n)) \<Longrightarrow> snd (WithdrawValidatorStake e n) = e"
  by (cases "map_of (validators e) n")
     (auto simp: WithdrawValidatorStake_def Let_def split: if_splits)

lemma Delegate_error_unchanged:
  "fst (DelegateUserStake vm e n d a) \<noteq> None \<Longrightarrow> snd (DelegateUserStake vm e n d a) = e"
proof (cases "map_of (validators e) n")
  case None
  then show ?thesis by (simp add: DelegateUserStake_def)
next
  case (Some v)
  assume err: "fst (DelegateUserStake vm e n d a) \<noteq> None"
  show ?thesis
  proof (cases "map_of (delegatorsLastClaim v) d")
    case None
    with Some err show ?thesis by (simp add: DelegateUserStake_def Let_def)
  next
    case (Some h)
    with \<open>map_of (validators e) n = Some v\<close> show ?thesis
      by (simp add: DelegateUserStake_def)
  qed
qed

lemma Undelegate_error_unchanged:
  "isl (fst (UndelegateUserStake P vm e n d a)) \<Longrightarrow>
     snd (UndelegateUserStake P vm e n d a) = e"
proof (cases "map_of (validators e) n")
  case None
  then show ?thesis by (simp add: UndelegateUserStake_def)
next
  case (Some v)
  assume err: "isl (fst (UndelegateUserStake P vm e n d a))"
  show ?thesis
  proof (cases "map_of (delegatorsLastClaim v) d")
    case None
    with Some show ?thesis by (simp add: UndelegateUserStake_def)
  next
    case (Some h)
    note known = this \<open>map_of (validators e) n = Some v\<close>
    show ?thesis
    proof (cases "CalculateUserDelegationRewards P vm e n d (GetLastAcceptedBlockHeight vm)")
      case (Inl x)
      with known show ?thesis
        by (simp add: UndelegateUserStake_def Let_def)
    next
      case (Inr y)
      with known err show ?thesis
        by (simp add: UndelegateUserStake_def Let_def)
    qed
  qed
qed

lemma Claim_error_unchanged:
  "isl (fst (ClaimStakingRewards P vm e n d)) \<Longrightarrow> snd (ClaimStakingRewards P vm e n d) = e"
proof (cases "map_of (validators e) n")
  case None
  then show ?thesis by (simp add: ClaimStakingRewards_def)
next
  case (Some v)
  assume err: "isl (fst (ClaimStakingRewards P vm e n d))"
  show ?thesis
  proof (cases "d = EmptyAddress")
    case True
    with Some err show ?thesis
      by (simp add: ClaimStakingRewards_def Let_def split: if_splits)
  next
    case False
    show ?thesis
    proof (cases "CalculateUserDelegationRewards P vm e n d (GetLastAcceptedBlockHeight vm)")
      case (Inl x)
      with False Some show ?thesis
        by (simp add: ClaimStakingRewards_def Let_def)
    next
      case (Inr y)
      with False Some err show ?thesis
        by (simp add: ClaimStakingRewards_def Let_def)
    qed
  qed
qed

text \<open>
  C10. Whenever \<^verbatim>\<open>RegisterValidatorStake\<close>, \<^verbatim>\<open>WithdrawValidatorStake\<close>,
  \<^verbatim>\<open>DelegateUserStake\<close>, \<^verbatim>\<open>UndelegateUserStake\<close> or \<^verbatim>\<open>ClaimStakingRewards\<close> returns an
  error (any of them, the error of the storage layer included), the whole
  \<^verbatim>\<open>Emission\<close> aggregate, with every validator entry and its maps, is as it was before
  the call.
\<close>

theorem errors_leave_Emission_unchanged:
  "(fst (RegisterValidatorStake e n1 pk s t a r) \<noteq> None \<longrightarrow>
      snd (RegisterValidatorStake e n1 pk s t a r) = e) \<and>
   (isl (fst (WithdrawValidatorStake e n2)) \<longrightarrow> snd (WithdrawValidatorStake e n2) = e) \<and>
   (fst (DelegateUserStake vm e n3 d3 a3) \<noteq> None \<longrightarrow>
      snd (DelegateUserStake vm e n3 d3 a3) = e) \<and>
   (isl (fst (UndelegateUserStake P vm e n4 d4 a4)) \<longrightarrow>
      snd (UndelegateUserStake P vm e n4 d4 a4) = e) \<and>
   (isl (fst (ClaimStakingRewards P vm e n5 d5)) \<longrightarrow>
      snd (ClaimStakingRewards P vm e n5 d5) = e)"
  by (intro conjI impI)
     (erule Register_error_unchanged Withdraw_error_unchanged Delegate_error_unchanged
        Undelegate_error_unchanged Claim_error_unchanged)+

theorem errors_leave_Emission_unchanged_witness:
  "fst (RegisterValidatorStake staked_ledger 1 [] 0 1000000 100 50)
     = Some ErrValidatorAlreadyRegistered \<and>
   snd (RegisterValidatorStake staked_ledger 1 [] 0 1000000 100 50) = staked_ledger \<and>
   fst (WithdrawValidatorStake staked_ledger 2) = Inl ErrValidatorNotFound \<and>
   snd (WithdrawValidatorStake staked_ledger 2) = staked_ledger \<and>
   fst (DelegateUserStake failing_store staked_ledger 1 11 50)
     = Some ErrDelegatorAlreadyStaked \<and>
   snd (DelegateUserStake failing_store staked_ledger 1 11 50) = staked_ledger \<and>
   fst (UndelegateUserStake saturating failing_store staked_ledger 1 11 50)
     = Inl (ErrStorage 1) \<and>
   snd (UndelegateUserStake saturating failing_store staked_ledger 1 11 50) = staked_ledger \<and>
   fst (ClaimStakingRewards saturating failing_store staked_ledger 1 13)
     = Inl ErrDelegatorNotFound \<and>
   snd (ClaimStakingRewards saturating failing_store staked_ledger 1 13) = staked_ledger"
  using errors_leave_Emission_unchanged
          [where e = staked_ledger and ?n1.0 = 1 and pk = "[]" and s = 0 and t = 1000000
             and a = 100 and r = 50 and ?n2.0 = 2 and vm = failing_store and ?n3.0 = 1
             and ?d3.0 = 11 and ?a3.0 = 50 and P = saturating and ?n4.0 = 1 and ?d4.0 = 11
             and ?a4.0 = 50 and ?n5.0 = 1 and ?d5.0 = 13]
  by (simp add: staked_ledger_def failing_store_def ledger_eval RegisterValidatorStake_def
        WithdrawValidatorStake_def DelegateUserStake_def UndelegateUserStake_def
        ClaimStakingRewards_def CalculateUserDelegationRewards_def)

subsection \<open>Withdrawal of a validator\<close>

text \<open>
  C7. \<^verbatim>\<open>WithdrawValidatorStake\<close> on a registered validator that still has a delegator
  returns exactly its \<^verbatim>\<open>UnclaimedStakedReward\<close> and zeroes it, marks the validator
  inactive, subtracts its \<^verbatim>\<open>StakedAmount\<close> from \<^verbatim>\<open>TotalStaked\<close> if it was active, keeps
  the entry and leaves \<^verbatim>\<open>UnclaimedDelegatedReward\<close> out of the result. On a validator
  with no delegator it returns both unclaimed rewards, subtracts \<^verbatim>\<open>DelegatedAmount\<close> as
  well, and deletes the entry. All arithmetic is that of \<^verbatim>\<open>uint64\<close>.
\<close>

theorem WithdrawValidatorStake_with_and_without_delegators:
  assumes "map_of (validators e) nodeID = Some v"
  shows "(delegatorsLastClaim v \<noteq> [] \<longrightarrow>
            fst (WithdrawValidatorStake e nodeID) = Inr (UnclaimedStakedReward v) \<and>
            snd (WithdrawValidatorStake e nodeID) =
              e\<lparr>TotalStaked := (if IsActive v then TotalStaked e - StakedAmount v
                                 else TotalStaked e),
                validators :=
                  AList.update nodeID (v\<lparr>UnclaimedStakedReward := 0, IsActive := False\<rparr>)
                    (validators e)\<rparr> \<and>
            map_of (validators (snd (WithdrawValidatorStake e nodeID))) nodeID =
              Some (v\<lparr>UnclaimedStakedReward := 0, IsActive := False\<rparr>)) \<and>
         (delegatorsLastClaim v = [] \<longrightarrow>
            fst (WithdrawValidatorStake e nodeID) =
              Inr (UnclaimedStakedReward v + UnclaimedDelegatedReward v) \<and>
            snd (WithdrawValidatorStake e nodeID) =
              e\<lparr>TotalStaked := (if IsActive v then TotalStaked e - StakedAmount v
                                 else TotalStaked e) - DelegatedAmount v,
                validators := AList.delete nodeID (validators e)\<rparr> \<and>
            map_of (validators (snd (WithdrawValidatorStake e nodeID))) nodeID = None)"
  using assms
  by (simp add: WithdrawValidatorStake_def Let_def update_conv' delete_conv')

theorem WithdrawValidatorStake_with_and_without_delegators_witness:
  "fst (WithdrawValidatorStake staked_ledger 1) = Inr 7 \<and>
   TotalStaked (snd (WithdrawValidatorStake staked_ledger 1)) = 50 \<and>
   map_of (validators (snd (WithdrawValidatorStake staked_ledger 1))) 1 =
     Some ((registered 1 100)
             \<lparr>DelegatedAmount := 50, UnclaimedDelegatedReward := 3,
              delegatorsLastClaim := [(11, 5)]\<rparr>) \<and>
   fst (WithdrawValidatorStake solo_ledger 1) = Inr 10 \<and>
   TotalStaked (snd (WithdrawValidatorStake solo_ledger 1)) = 0 \<and>
   validators (snd (WithdrawValidatorStake solo_ledger 1)) = []"
  using WithdrawValidatorStake_with_and_without_delegators
          [of staked_ledger 1
              "(registered 1 100)
                 \<lparr>IsActive := True, UnclaimedStakedReward := 7, DelegatedAmount := 50,
                  UnclaimedDelegatedReward := 3, delegatorsLastClaim := [(11, 5)]\<rparr>"]
        WithdrawValidatorStake_with_and_without_delegators
          [of solo_ledger 1
              "(registered 1 100)
                 \<lparr>IsActive := True, UnclaimedStakedReward := 7,
                  UnclaimedDelegatedReward := 3\<rparr>"]
  by (simp add: staked_ledger_def solo_ledger_def ledger_eval)

subsection \<open>Registration twice in a row\<close>

lemma Register_result:
  "fst (RegisterValidatorStake e n pk s t a r) =
     (if registered_and_active e n then Some ErrValidatorAlreadyRegistered else None)"
  by (cases "map_of (validators e) n")
     (simp_all add: RegisterValidatorStake_def registered_and_active_def)

lemma Register_keeps_activity:
  "registered_and_active (snd (RegisterValidatorStake e n pk s t a r)) n
     = registered_and_active e n"
  by (cases "map_of (validators e) n")
     (simp_all add: RegisterValidatorStake_def registered_and_active_def update_conv')

text \<open>
  C4, as the claim states it, fails: on a new ledger the first call creates the entry
  with \<^verbatim>\<open>IsActive\<close> false, and the second call, finding an entry that is not active,
  updates it and returns no error.
\<close>

theorem second_registration_succeeds:
  "map_of (validators (New 0 1000 9 0)) 1 = None \<and>
   map_of (validators once_registered) 1 = Some (registered 1 100) \<and>
   fst (RegisterValidatorStake once_registered 1 [] 0 1000000 100 50) = None \<and>
   fst (RegisterValidatorStake once_registered 1 [] 0 1000000 100 50)
     \<noteq> Some ErrValidatorAlreadyRegistered"
  by (simp add: once_registered_def RegisterValidatorStake_def ledger_eval f64_eval)

text \<open>
  C4, amended. Of two calls of \<^verbatim>\<open>RegisterValidatorStake\<close> in a row for one node, the
  second fails with \<^verbatim>\<open>ValidatorAlreadyRegistered\<close> exactly when the node was registered
  and active before the first call, which is exactly when the first call failed with
  the same error. When the first call created the entry, the second call succeeds and
  updates the entry in place: the staked amounts add up (in \<^verbatim>\<open>uint64\<close>), key, fee
  rate and window are those of the second call, and the validator stays inactive.
\<close>

theorem RegisterValidatorStake_twice_in_a_row:
  "(fst (RegisterValidatorStake (snd (RegisterValidatorStake e n pk s t a r)) n pk' s' t' a' r')
      = Some ErrValidatorAlreadyRegistered
    \<longleftrightarrow> registered_and_active e n) \<and>
   fst (RegisterValidatorStake (snd (RegisterValidatorStake e n pk s t a r)) n pk' s' t' a' r')
     = fst (RegisterValidatorStake e n pk s t a r) \<and>
   (map_of (validators e) n = None \<longrightarrow>
      fst (RegisterValidatorStake e n pk s t a r) = None \<and>
      fst (RegisterValidatorStake (snd (RegisterValidatorStake e n pk s t a r)) n pk' s' t' a' r')
        = None \<and>
      map_of (validators
               (snd (RegisterValidatorStake (snd (RegisterValidatorStake e n pk s t a r))
                       n pk' s' t' a' r'))) n
        = Some \<lparr>IsActive = False, NodeID = n, PublicKey = pk', StakedAmount = a + a',
                 UnclaimedStakedReward = 0,
                 DelegationFeeRate = f64_div (f64_of_u64 r') (Num False 100),
                 DelegatedAmount = 0, UnclaimedDelegatedReward = 0,
                 delegatorsLastClaim = [], epochRewards = [],
                 stakeStartTime = time_Unix s', stakeEndTime = time_Unix t'\<rparr>)"
proof (intro conjI impI)
  show "(fst (RegisterValidatorStake (snd (RegisterValidatorStake e n pk s t a r))
               n pk' s' t' a' r') = Some ErrValidatorAlreadyRegistered)
          = registered_and_active e n"
    by (simp add: Register_result Register_keeps_activity)
  show "fst (RegisterValidatorStake (snd (RegisterValidatorStake e n pk s t a r))
              n pk' s' t' a' r')
          = fst (RegisterValidatorStake e n pk s t a r)"
    by (simp add: Register_result Register_keeps_activity)
next
  assume absent: "map_of (validators e) n = None"
  then have inactive: "\<not> registered_and_active e n"
    by (simp add: registered_and_active_def)
  then show "fst (RegisterValidatorStake e n pk s t a r) = None"
    by (simp add: Register_result)
  from inactive
  show "fst (RegisterValidatorStake (snd (RegisterValidatorStake e n pk s t a r))
              n pk' s' t' a' r') = None"
    by (simp add: Register_result Register_keeps_activity)
  from absent
  show "map_of (validators
                 (snd (RegisterValidatorStake (snd (RegisterValidatorStake e n pk s t a r))
                         n pk' s' t' a' r'))) n
          = Some \<lparr>IsActive = False, NodeID = n, PublicKey = pk', StakedAmount = a + a',
                   UnclaimedStakedReward = 0,
                   DelegationFeeRate = f64_div (f64_of_u64 r') (Num False 100),
                   DelegatedAmount = 0, UnclaimedDelegatedReward = 0,
                   delegatorsLastClaim = [], epochRewards = [],
                   stakeStartTime = time_Unix s', stakeEndTime = time_Unix t'\<rparr>"
    by (simp add: RegisterValidatorStake_def update_conv')
qed

theorem RegisterValidatorStake_twice_in_a_row_witness:
  "map_of (validators (New 0 1000 9 0)) 1 = None \<and>
   \<not> registered_and_active (New 0 1000 9 0) 1 \<and>
   fst (RegisterValidatorStake once_registered 1 [] 0 1000000 100 50) = None \<and>
   map_option StakedAmount
     (map_of (validators (snd (RegisterValidatorStake once_registered 1 [] 0 1000000 100 50))) 1)
     = Some 200"
  using RegisterValidatorStake_twice_in_a_row
          [of "New 0 1000 9 0" 1 "[]" 0 1000000 100 50 "[]" 0 1000000 100 50]
  by (simp add: once_registered_def New_def registered_and_active_def)

subsection \<open>Fee distribution: supply and emission account\<close>

lemma DistributeFees_TotalSupply:
  "TotalSupply (DistributeFees P vm e fee) = TotalSupply e"
  by (simp add: DistributeFees_def Let_def split: prod.splits)

lemma DistributeFees_MaxSupply:
  "MaxSupply (DistributeFees P vm e fee) = MaxSupply e"
  by (simp add: DistributeFees_def Let_def split: prod.splits)

lemma DistributeFees_UnclaimedBalance:
  "UnclaimedBalance (EmissionAccount (DistributeFees P vm e fee)) =
     UnclaimedBalance (EmissionAccount e) +
       (if TotalSupply e + fee > MaxSupply e then MaxSupply e - TotalSupply e else fee) div 2"
  by (simp add: DistributeFees_def Let_def split: prod.splits)

lemma clamp_is_min:
  fixes total cap fee :: u64
  assumes "total \<le> cap" and "unat total + unat fee < 2 ^ 64"
  shows "(if total + fee > cap then cap - total else fee) = min fee (cap - total)"
proof -
  from assms(2) have sum: "unat (total + fee) = unat total + unat fee"
    by (simp add: unat_word_ariths)
  from assms(1) have diff: "unat (cap - total) = unat cap - unat total"
    by (simp add: unat_sub word_le_nat_alt)
  from assms(1) have le: "unat total \<le> unat cap"
    by (simp add: word_le_nat_alt)
  have "(total + fee > cap) = (fee > cap - total)"
    using sum diff le by (simp add: word_less_nat_alt) linarith
  then show ?thesis
    by (auto simp: min_def)
qed


text \<open>
  C8, as the claim states it, fails where \<^verbatim>\<open>TotalSupply + fee\<close> wraps around: with
  supply 990, cap 1000 and the largest fee the sum is 989, the fee is not clamped, and
  the emission account is credited \<open>2^63 - 1\<close> instead of 5. It also fails where the
  supply is above the cap, as \<^verbatim>\<open>MintNewNAI\<close> can leave it: with supply 1008, cap 1000
  and fee 100 the fee becomes \<open>1000 - 1008\<close> in \<^verbatim>\<open>uint64\<close> and the account is credited
  \<open>2^63 - 4\<close> instead of 50.
\<close>

theorem DistributeFees_unclamped_on_overflow:
  "UnclaimedBalance (EmissionAccount
      (DistributeFees saturating (block 1 100 0) (ledger 990 1000 0 [])
         18446744073709551615)) = 9223372036854775807 \<and>
   UnclaimedBalance (EmissionAccount (ledger 990 1000 0 [])) +
     min 18446744073709551615
       (MaxSupply (ledger 990 1000 0 []) - TotalSupply (ledger 990 1000 0 [])) div 2 = 5 \<and>
   UnclaimedBalance (EmissionAccount
      (DistributeFees saturating (block 1 100 0) (ledger 1008 1000 0 []) 100))
     = 9223372036854775804 \<and>
   UnclaimedBalance (EmissionAccount (ledger 1008 1000 0 [])) +
     min 100 (MaxSupply (ledger 1008 1000 0 []) - TotalSupply (ledger 1008 1000 0 [])) div 2
     = 50"
  by (simp add: DistributeFees_def ledger_eval)

text \<open>
  C8, amended. For every fee and every state \<^verbatim>\<open>DistributeFees\<close> leaves \<^verbatim>\<open>TotalSupply\<close>
  unchanged. When \<^verbatim>\<open>TotalSupply \<le> MaxSupply\<close> and \<^verbatim>\<open>TotalSupply + fee\<close> does not exceed
  the range of \<^verbatim>\<open>uint64\<close>, it adds (in \<^verbatim>\<open>uint64\<close>) to the emission account's
  \<^verbatim>\<open>UnclaimedBalance\<close> exactly half, rounded down, of \<open>min fee (MaxSupply - TotalSupply)\<close>.
  In scenario B a fee of 100 credits 50 to the emission account and 50 to the
  validator's \<^verbatim>\<open>UnclaimedStakedReward\<close>, and nothing to its delegated reward.
\<close>

theorem DistributeFees_supply_and_emission_account:
  "TotalSupply (DistributeFees P vm e fee) = TotalSupply e \<and>
   (TotalSupply e \<le> MaxSupply e \<and> unat (TotalSupply e) + unat fee < 2 ^ 64 \<longrightarrow>
      UnclaimedBalance (EmissionAccount (DistributeFees P vm e fee)) =
        UnclaimedBalance (EmissionAccount e) +
          min fee (MaxSupply e - TotalSupply e) div 2) \<and>
   UnclaimedBalance (EmissionAccount (DistributeFees P (block 1 100 0) scenario_B 100)) = 50 \<and>
   map_option UnclaimedStakedReward
     (map_of (validators (DistributeFees P (block 1 100 0) scenario_B 100)) 1) = Some 50 \<and>
   map_option UnclaimedDelegatedReward
     (map_of (validators (DistributeFees P (block 1 100 0) scenario_B 100)) 1) = Some 0"
proof (intro conjI impI)
  show "TotalSupply (DistributeFees P vm e fee) = TotalSupply e"
    by (rule DistributeFees_TotalSupply)
next
  assume "TotalSupply e \<le> MaxSupply e \<and> unat (TotalSupply e) + unat fee < 2 ^ 64"
  then show "UnclaimedBalance (EmissionAccount (DistributeFees P vm e fee)) =
        UnclaimedBalance (EmissionAccount e) +
          min fee (MaxSupply e - TotalSupply e) div 2"
    by (simp add: DistributeFees_UnclaimedBalance clamp_is_min)
next
  have run: "DistributeFees P (block 1 100 0) scenario_B 100 =
      scenario_B
        \<lparr>EmissionAccount := \<lparr>Address = 9, UnclaimedBalance = 50\<rparr>,
         validators :=
           [(1, (registered 1 100)
                  \<lparr>IsActive := True,
                   DelegationFeeRate := f64_div (f64_of_u64 10) (Num False 100),
                   UnclaimedStakedReward := 50\<rparr>)],
         TotalStaked := 200\<rparr>"
    by (simp add: scenario_B_def DistributeFees_def fee_validator_def
          distributeValidatorRewards_def ledger_eval f64_eval)
  show "UnclaimedBalance (EmissionAccount (DistributeFees P (block 1 100 0) scenario_B 100)) = 50"
    by (simp add: run)
  show "map_option UnclaimedStakedReward
     (map_of (validators (DistributeFees P (block 1 100 0) scenario_B 100)) 1) = Some 50"
    by (simp add: run)
  show "map_option UnclaimedDelegatedReward
     (map_of (validators (DistributeFees P (block 1 100 0) scenario_B 100)) 1) = Some 0"
    by (simp add: run registered_def)
qed

theorem DistributeFees_supply_and_emission_account_witness:
  "TotalSupply (ledger 990 1000 0 []) \<le> MaxSupply (ledger 990 1000 0 []) \<and>
   unat (TotalSupply (ledger 990 1000 0 [])) + unat (50 :: u64) < 2 ^ 64 \<and>
   TotalSupply (DistributeFees saturating (block 1 100 0) (ledger 990 1000 0 []) 50) = 990 \<and>
   UnclaimedBalance (EmissionAccount
      (DistributeFees saturating (block 1 100 0) (ledger 990 1000 0 []) 50)) = 5"
  using DistributeFees_supply_and_emission_account
          [of saturating "block 1 100 0" "ledger 990 1000 0 []" 50]
  by (simp add: ledger_eval)

subsection \<open>The reward split\<close>

text \<open>
  C9, as the claim states it, fails: \<^verbatim>\<open>float64(totalValidatorReward)\<close> rounds the total
  to 53 significant bits before the product is taken. The total \<open>2^53 + 3\<close> becomes
  \<open>2^53 + 4\<close>, so with the rate one half the delegation share is \<open>2^52 + 2\<close>, not the
  integer part \<open>2^52 + 1\<close> of total times rate.
\<close>

theorem delegation_share_is_not_floor:
  "snd (distributeValidatorRewards saturating 9007199254740995 (Num False (1 / 2)) 1)
     = 4503599627370498 \<and>
   \<lfloor>(9007199254740995 :: rat) * (1 / 2)\<rfloor> = 4503599627370497"
  by (simp add: distributeValidatorRewards_def f64_eval)

text \<open>The rounding shows at small numbers too. The rate stored for a fee rate of 29
  is the double next to 0.29, and the share of 100 is 28. The rate stored for a fee
  rate of 70 is a double below 0.7; ten times that rate is below 7, but the product
  of the doubles rounds to 7, and the share of 10 is 7.\<close>

lemma delegation_share_of_100_at_29_percent:
  "distributeValidatorRewards P 100 (f64_div (f64_of_u64 29) (Num False 100)) 50 = (72, 28)"
  by (simp add: distributeValidatorRewards_def f64_eval)

lemma delegation_share_of_10_at_70_percent:
  "f64_div (f64_of_u64 70) (Num False 100)
     = Num False (3152519739159347 / 4503599627370496) \<and>
   \<lfloor>(10 :: rat) * (3152519739159347 / 4503599627370496)\<rfloor> = 6 \<and>
   distributeValidatorRewards P 10 (f64_div (f64_of_u64 70) (Num False 100)) 50 = (3, 7)"
  by (simp add: distributeValidatorRewards_def f64_eval)

text \<open>
  C9, amended. For every total, rate and delegated amount the split is \<open>(total, 0)\<close>
  when the delegated amount is 0. Otherwise the delegation share is
  \<^verbatim>\<open>uint64(float64(total) * rate)\<close>, the product of doubles rounded to the nearest
  double and truncated, and the validator share is the total minus that share in
  \<^verbatim>\<open>uint64\<close>, so that the two shares add up to the total modulo \<open>2^64\<close>. For a total
  below \<open>2^53\<close> and a rate between 0 and 1, the delegation share lies between the
  integer part of total times rate and that product rounded up, and the two shares
  add up to the total as integers. For the total 100 and the rate stored for 20
  percent the split is delegation 20, validator 80.
\<close>

theorem distributeValidatorRewards_split:
  "distributeValidatorRewards P reward rate 0 = (reward, 0) \<and>
   (delegatedAmount \<noteq> 0 \<longrightarrow>
      distributeValidatorRewards P reward rate delegatedAmount =
        (reward - f64_to_u64 P (f64_mul (f64_of_u64 reward) rate),
         f64_to_u64 P (f64_mul (f64_of_u64 reward) rate))) \<and>
   fst (distributeValidatorRewards P reward rate delegatedAmount) +
     snd (distributeValidatorRewards P reward rate delegatedAmount) = reward \<and>
   (delegatedAmount \<noteq> 0 \<and> uint reward < 2 ^ 53 \<and> 0 \<le> r \<and> r \<le> 1 \<longrightarrow>
      \<lfloor>of_int (uint reward) * r\<rfloor>
        \<le> uint (snd (distributeValidatorRewards P reward (Num False r) delegatedAmount)) \<and>
      uint (snd (distributeValidatorRewards P reward (Num False r) delegatedAmount))
        \<le> \<lceil>of_int (uint reward) * r\<rceil> \<and>
      uint (fst (distributeValidatorRewards P reward (Num False r) delegatedAmount)) +
        uint (snd (distributeValidatorRewards P reward (Num False r) delegatedAmount))
        = uint reward) \<and>
   distributeValidatorRewards P 100 (f64_div (f64_of_u64 20) (Num False 100)) 50 = (80, 20)"
proof (intro conjI impI)
  show "distributeValidatorRewards P reward rate 0 = (reward, 0)"
    by (simp add: distributeValidatorRewards_def)
  show "fst (distributeValidatorRewards P reward rate delegatedAmount) +
     snd (distributeValidatorRewards P reward rate delegatedAmount) = reward"
    by (simp add: distributeValidatorRewards_def Let_def)
  show "distributeValidatorRewards P 100 (f64_div (f64_of_u64 20) (Num False 100)) 50 = (80, 20)"
    by (simp add: distributeValidatorRewards_def f64_eval)
next
  assume "delegatedAmount \<noteq> 0"
  then show "distributeValidatorRewards P reward rate delegatedAmount =
        (reward - f64_to_u64 P (f64_mul (f64_of_u64 reward) rate),
         f64_to_u64 P (f64_mul (f64_of_u64 reward) rate))"
    by (simp add: distributeValidatorRewards_def Let_def word_greater_zero_iff)
next
  assume range: "delegatedAmount \<noteq> 0 \<and> uint reward < 2 ^ 53 \<and> 0 \<le> r \<and> r \<le> 1"
  then obtain d where d: "f64_to_u64 P (f64_mul (f64_of_u64 reward) (Num False r)) = d"
      and lo: "\<lfloor>of_int (uint reward) * r\<rfloor> \<le> uint d"
      and hi: "uint d \<le> \<lceil>of_int (uint reward) * r\<rceil>"
      and le: "uint d \<le> uint reward"
    using delegation_share_bounds [of reward r P] by blast
  from range d have split:
    "distributeValidatorRewards P reward (Num False r) delegatedAmount = (reward - d, d)"
    by (simp add: distributeValidatorRewards_def Let_def word_greater_zero_iff)
  from le have diff: "uint (reward - d) = uint reward - uint d"
    by (simp add: uint_sub_lem)
  from lo show "\<lfloor>of_int (uint reward) * r\<rfloor>
        \<le> uint (snd (distributeValidatorRewards P reward (Num False r) delegatedAmount))"
    by (simp only: split snd_conv)
  from hi show "uint (snd (distributeValidatorRewards P reward (Num False r) delegatedAmount))
        \<le> \<lceil>of_int (uint reward) * r\<rceil>"
    by (simp only: split snd_conv)
  from diff show "uint (fst (distributeValidatorRewards P reward (Num False r) delegatedAmount)) +
        uint (snd (distributeValidatorRewards P reward (Num False r) delegatedAmount))
        = uint reward"
    by (simp only: split fst_conv snd_conv)
qed

theorem distributeValidatorRewards_split_witness:
  "(50 :: u64) \<noteq> 0 \<and> uint (100 :: u64) < 2 ^ 53 \<and> (0 :: rat) \<le> 1 / 2 \<and> (1 / 2 :: rat) \<le> 1 \<and>
   distributeValidatorRewards saturating 100 (Num False (1 / 2)) 50 = (50, 50)"
proof -
  have split: "distributeValidatorRewards saturating 100 (Num False (1 / 2)) 50 =
      (100 - f64_to_u64 saturating (f64_mul (f64_of_u64 100) (Num False (1 / 2))),
       f64_to_u64 saturating (f64_mul (f64_of_u64 100) (Num False (1 / 2))))"
    using distributeValidatorRewards_split [of saturating 100 "Num False (1 / 2)" 50 "1 / 2"]
    by simp
  show ?thesis
    by (simp add: split f64_eval)
qed

subsection \<open>Claims against the shared delegated reward\<close>

lemmas mint_eval =
  MintNewNAI_def GetRewardsPerEpoch_def GetAPRForValidators_def mint_validator_def
  distributeValidatorRewards_def

lemma delegated_twice_value:
  "delegated_twice =
     ledger 0 1000000000000000000 0
       [(1, \<lparr>IsActive = False, NodeID = 1, PublicKey = [],
              StakedAmount = 1099511627776, UnclaimedStakedReward = 0,
              DelegationFeeRate = Num False (1 / 2),
              DelegatedAmount = 1099511627776, UnclaimedDelegatedReward = 0,
              delegatorsLastClaim = [(11, 5), (12, 5)], epochRewards = [],
              stakeStartTime = time_Unix 0, stakeEndTime = time_Unix 560\<rparr>)]"
  by (simp add: delegated_twice_def RegisterValidatorStake_def DelegateUserStake_def
        ledger_eval f64_eval)

lemma after_epoch_1_value:
  "after_epoch_1 =
     ledger 0 1000000000000000000 2199023255552
       [(1, \<lparr>IsActive = True, NodeID = 1, PublicKey = [],
              StakedAmount = 1099511627776, UnclaimedStakedReward = 0,
              DelegationFeeRate = Num False (1 / 2),
              DelegatedAmount = 1099511627776, UnclaimedDelegatedReward = 0,
              delegatorsLastClaim = [(11, 5), (12, 5)], epochRewards = [(1, 0)],
              stakeStartTime = time_Unix 0, stakeEndTime = time_Unix 560\<rparr>)]"
  by (simp add: after_epoch_1_def delegated_twice_value mint_eval ledger_eval f64_eval)

lemma after_epoch_2_value:
  "after_epoch_2 =
     ledger 522979 1000000000000000000 4398046511104
       [(1, \<lparr>IsActive = True, NodeID = 1, PublicKey = [],
              StakedAmount = 1099511627776, UnclaimedStakedReward = 261490,
              DelegationFeeRate = Num False (1 / 2),
              DelegatedAmount = 1099511627776, UnclaimedDelegatedReward = 261489,
              delegatorsLastClaim = [(11, 5), (12, 5)],
              epochRewards = [(1, 0), (2, 261489)],
              stakeStartTime = time_Unix 0, stakeEndTime = time_Unix 560\<rparr>)]"
  by (simp add: after_epoch_2_def after_epoch_1_value mint_eval ledger_eval f64_eval)

lemma after_stake_end_reachable: "after_epoch_3 = after_stake_end"
  by (simp add: after_epoch_3_def after_epoch_2_value after_stake_end_def mint_eval
        ledger_eval f64_eval)

lemmas claim_eval =
  UndelegateUserStake_def ClaimStakingRewards_def CalculateUserDelegationRewards_def
  epoch_loop.simps

text \<open>
  C6 fails on the code. From a new ledger: a validator registers, two delegators
  delegate \<open>2^39\<close> each, the epochs 1 and 2 are minted (261489 for the delegators in
  epoch 2), and the validator's stake ends. Delegator 12 undelegates and receives
  half of the epoch's reward, computed against the delegated amount \<open>2^40\<close>. Delegator
  11 then claims: the share is computed against the delegated amount that is left,
  \<open>2^39\<close>, so the reward is all of 261489, more than the 130745 that
  \<^verbatim>\<open>UnclaimedDelegatedReward\<close> holds, and the subtraction wraps around to
  \<open>2^64 - 130744\<close>.
\<close>

theorem UnclaimedDelegatedReward_wraps_around:
  "UndelegateUserStake P (block 31 593 549755813888) after_stake_end 1 12 549755813888
     = (Inr 130744, after_undelegate) \<and>
   map_option UnclaimedDelegatedReward (map_of (validators after_undelegate) 1)
     = Some 130745 \<and>
   CalculateUserDelegationRewards P (block 31 593 549755813888) after_undelegate 1 11 31
     = Inr 261489 \<and>
   fst (ClaimStakingRewards P (block 31 593 549755813888) after_undelegate 1 11)
     = Inr 261489 \<and>
   map_option UnclaimedDelegatedReward
     (map_of (validators
        (snd (ClaimStakingRewards P (block 31 593 549755813888) after_undelegate 1 11))) 1)
     = Some 18446744073709420872"
  by (simp add: after_stake_end_def after_undelegate_def claim_eval ledger_eval f64_eval)

subsection \<open>The supply cap\<close>

lemma AddToTotalSupply_within_cap:
  "TotalSupply (snd (AddToTotalSupply e amount)) \<le> MaxSupply (snd (AddToTotalSupply e amount)) \<and>
   fst (AddToTotalSupply e amount) = TotalSupply (snd (AddToTotalSupply e amount))"
  by (simp add: AddToTotalSupply_def Let_def not_less)

lemma AddToTotalSupply_scenario_A:
  "AddToTotalSupply (ledger 990 1000 0 []) 50 = (1000, ledger 1000 1000 0 [])"
  by (simp add: AddToTotalSupply_def ledger_eval)

lemma DistributeFees_within_cap:
  "TotalSupply e \<le> MaxSupply e \<Longrightarrow>
     TotalSupply (DistributeFees P vm e fee) \<le> MaxSupply (DistributeFees P vm e fee)"
  by (simp add: DistributeFees_TotalSupply DistributeFees_MaxSupply)

lemma MintNewNAI_off_boundary:
  "EpochLength (EpochTracker e) \<noteq> 0 \<Longrightarrow> Height vm mod EpochLength (EpochTracker e) \<noteq> 0 \<Longrightarrow>
     MintNewNAI P vm e = (Inr 0, e)"
  by (simp add: MintNewNAI_def GetLastAcceptedBlockHeight_def)

lemma near_cap_reachable: "near_cap_trace = near_cap"
  by (simp add: near_cap_trace_def near_cap_def RegisterValidatorStake_def mint_eval
        ledger_eval f64_eval)

text \<open>
  C1 fails on the code. \<^verbatim>\<open>AddToTotalSupply\<close> and \<^verbatim>\<open>DistributeFees\<close> keep
  \<^verbatim>\<open>TotalSupply \<le> MaxSupply\<close> (above), but \<^verbatim>\<open>MintNewNAI\<close> caps only the rewards it plans
  to give, computed from the total stake before the loop, and adds to the supply what
  the loop hands out. On \<open>near_cap\<close> at the epoch boundary of height 20 the planned
  reward is cut from 255 to 8, the reward per stake unit is \<open>8 / 2^30\<close>, the loop
  activates validator 2, both validators receive 8, and the supply becomes 1008 with
  the cap at 1000.
\<close>

theorem MintNewNAI_exceeds_MaxSupply:
  "TotalSupply near_cap \<le> MaxSupply near_cap \<and>
   GetRewardsPerEpoch P near_cap = 8 \<and>
   fst (MintNewNAI P (block 20 530 0) near_cap) = Inr 16 \<and>
   TotalSupply (snd (MintNewNAI P (block 20 530 0) near_cap)) = 1008 \<and>
   MaxSupply (snd (MintNewNAI P (block 20 530 0) near_cap)) = 1000 \<and>
   \<not> TotalSupply (snd (MintNewNAI P (block 20 530 0) near_cap))
       \<le> MaxSupply (snd (MintNewNAI P (block 20 530 0) near_cap))"
proof -
  have within: "TotalSupply near_cap \<le> MaxSupply near_cap"
    by (simp add: near_cap_def ledger_eval)
  have planned: "GetRewardsPerEpoch P near_cap = 8"
    by (simp add: near_cap_def GetRewardsPerEpoch_def GetAPRForValidators_def
          ledger_eval f64_eval)
  have run: "MintNewNAI P (block 20 530 0) near_cap =
      (Inr 16,
       ledger 1008 1000 3221225472
         [(1, (registered 1 1073741824)
                \<lparr>IsActive := True, UnclaimedStakedReward := 8,
                 epochRewards := [(1, 0), (2, 0)]\<rparr>),
          (2, (registered 2 1073741824)
                \<lparr>IsActive := True, UnclaimedStakedReward := 8,
                 epochRewards := [(2, 0)]\<rparr>)])"
    by (simp add: near_cap_def mint_eval ledger_eval f64_eval)
  have after: "TotalSupply (snd (MintNewNAI P (block 20 530 0) near_cap)) = 1008"
    "MaxSupply (snd (MintNewNAI P (block 20 530 0) near_cap)) = 1000"
    by (simp_all add: run ledger_def New_def)
  from within planned after show ?thesis
    by (simp add: run)
qed

subsection \<open>The total stake and the lifecycle sweep\<close>

text \<open>
  C3 fails on the code. In both loops the test for activation is only
  \<^verbatim>\<open>lastBlockTime.After(validator.stakeStartTime)\<close>; it does not ask whether the
  validator is inactive. For a validator that is already active and within its stake
  window, the body of either loop adds \<^verbatim>\<open>StakedAmount + DelegatedAmount\<close> to
  \<^verbatim>\<open>TotalStaked\<close> once more, and the validator stays active.
\<close>

theorem sweep_counts_active_validator_again:
  assumes "IsActive v"
    and "After lastBlockTime (stakeStartTime v)"
    and "\<not> After lastBlockTime (stakeEndTime v)"
  shows "snd (fee_validator P lastBlockTime feesPerStakeUnit v totalStaked)
           = totalStaked + (StakedAmount v + DelegatedAmount v) \<and>
         IsActive (fst (fee_validator P lastBlockTime feesPerStakeUnit v totalStaked)) \<and>
         fst (snd (mint_validator P lastBlockTime rewardsPerStakeUnit epochNumber v
                     totalStaked actualRewards))
           = totalStaked + (StakedAmount v + DelegatedAmount v) \<and>
         IsActive (fst (mint_validator P lastBlockTime rewardsPerStakeUnit epochNumber v
                     totalStaked actualRewards))"
  using assms
  by (simp add: fee_validator_def mint_validator_def Let_def split: prod.splits)

theorem sweep_counts_active_validator_again_witness:
  "IsActive ((registered 1 100)\<lparr>IsActive := True\<rparr>) \<and>
   After (time_Unix 100) (stakeStartTime ((registered 1 100)\<lparr>IsActive := True\<rparr>)) \<and>
   \<not> After (time_Unix 100) (stakeEndTime ((registered 1 100)\<lparr>IsActive := True\<rparr>)) \<and>
   snd (fee_validator saturating (time_Unix 100) (Num False (1 / 2))
          ((registered 1 100)\<lparr>IsActive := True\<rparr>) 100) = 200 \<and>
   fst (snd (mint_validator saturating (time_Unix 100) (Num False (1 / 2)) 1
               ((registered 1 100)\<lparr>IsActive := True\<rparr>) 100 0)) = 200"
proof -
  have pre: "IsActive ((registered 1 100)\<lparr>IsActive := True\<rparr>)"
    "After (time_Unix 100) (stakeStartTime ((registered 1 100)\<lparr>IsActive := True\<rparr>))"
    "\<not> After (time_Unix 100) (stakeEndTime ((registered 1 100)\<lparr>IsActive := True\<rparr>))"
    by (simp_all add: ledger_eval)
  from pre sweep_counts_active_validator_again
             [OF pre, of saturating "Num False (1 / 2)" 100 "Num False (1 / 2)" 1 0]
  show ?thesis
    by (simp add: registered_def)
qed

text \<open>
  C2 fails on the code. In scenario B the total stake is the stake of the one active
  validator, 100. After one call of \<^verbatim>\<open>DistributeFees\<close> (or one epoch boundary of
  \<^verbatim>\<open>MintNewNAI\<close>) the validator is still the only active one, with the same stake, and
  \<^verbatim>\<open>TotalStaked\<close> is 200.
\<close>

theorem TotalStaked_drifts_from_active_stake:
  "unat (TotalStaked scenario_B) = active_stake scenario_B \<and>
   active_stake (DistributeFees P (block 1 100 0) scenario_B 100) = 100 \<and>
   unat (TotalStaked (DistributeFees P (block 1 100 0) scenario_B 100)) = 200 \<and>
   active_stake (snd (MintNewNAI P (block 10 100 0) scenario_B)) = 100 \<and>
   unat (TotalStaked (snd (MintNewNAI P (block 10 100 0) scenario_B))) = 200"
proof -
  have fees: "DistributeFees P (block 1 100 0) scenario_B 100 =
      scenario_B
        \<lparr>EmissionAccount := \<lparr>Address = 9, UnclaimedBalance = 50\<rparr>,
         validators :=
           [(1, (registered 1 100)
                  \<lparr>IsActive := True,
                   DelegationFeeRate := f64_div (f64_of_u64 10) (Num False 100),
                   UnclaimedStakedReward := 50\<rparr>)],
         TotalStaked := 200\<rparr>"
    by (simp add: scenario_B_def DistributeFees_def fee_validator_def
          distributeValidatorRewards_def ledger_eval f64_eval)
  have mint: "MintNewNAI P (block 10 100 0) scenario_B =
      (Inr 0,
       scenario_B
        \<lparr>validators :=
           [(1, (registered 1 100)
                  \<lparr>IsActive := True,
                   DelegationFeeRate := f64_div (f64_of_u64 10) (Num False 100),
                   epochRewards := [(1, 0)]\<rparr>)],
         TotalStaked := 200\<rparr>)"
    by (simp add: scenario_B_def mint_eval ledger_eval f64_eval)
  have before: "unat (TotalStaked scenario_B) = active_stake scenario_B"
    by (simp add: scenario_B_def active_stake_def ledger_eval)
  show ?thesis
    by (simp add: before fees mint) (simp add: active_stake_def registered_def)
qed

text \<open>The withdrawal of an active validator that has delegators leaves their stake
  in \<^verbatim>\<open>TotalStaked\<close> although no validator is active any more.\<close>

lemma Withdraw_leaves_delegated_stake_counted:
  "unat (TotalStaked staked_ledger) = active_stake staked_ledger \<and>
   unat (TotalStaked (snd (WithdrawValidatorStake staked_ledger 1))) = 50 \<and>
   active_stake (snd (WithdrawValidatorStake staked_ledger 1)) = 0"
  by (simp add: staked_ledger_def WithdrawValidatorStake_def active_stake_def ledger_eval)

subsection \<open>The epoch boundary without stake\<close>

text \<open>
  C5 fails on the code: \<^verbatim>\<open>MintNewNAI\<close> has no test for \<^verbatim>\<open>TotalStaked == 0\<close>. On the
  ledger with one registered validator and no stake at the epoch boundary of height
  10, the rewards of the epoch are 0, the reward per stake unit is \<open>0 / 0\<close>, a NaN, the
  loop activates the validator, and its reward is \<^verbatim>\<open>uint64\<close> of a NaN, a value that
  Go leaves to the implementation. That value is added to the validator's unclaimed
  reward and to the total supply, and an entry for the epoch is recorded.
\<close>

theorem MintNewNAI_divides_by_zero_stake:
  "TotalStaked once_registered = 0 \<and>
   GetRewardsPerEpoch P once_registered = 0 \<and>
   f64_div (f64_of_u64 (GetRewardsPerEpoch P once_registered))
           (f64_of_u64 (TotalStaked once_registered)) = NaN \<and>
   MintNewNAI P (block 10 500 0) once_registered =
     (Inr (P NaN),
      ledger (P NaN) 1000 100
        [(1, (registered 1 100)
               \<lparr>IsActive := True, UnclaimedStakedReward := P NaN,
                epochRewards := [(1, 0)]\<rparr>)])"
  by (simp add: once_registered_def RegisterValidatorStake_def mint_eval ledger_eval f64_eval)

end
